theory Spec2Isabelle
  imports Complex_Main
begin

section \<open>JavaScript values used by the ingestion code\<close>

text \<open>
  A text is a list of characters with codes below 256.

  A JavaScript number as the mappers see it: the result of \<^verbatim>\<open>parseFloat\<close> is
  \<^verbatim>\<open>NaN\<close>, an infinity, or a finite value. A finite value is an IEEE 754 double,
  written as the rational that it denotes; the sign of zero is not kept.
\<close>

datatype jsnum = NaN | PosInfinity | NegInfinity | Num rat

text \<open>Truthiness of a number: \<^verbatim>\<open>NaN\<close> and zero are falsy.\<close>

fun num_truthy :: "jsnum \<Rightarrow> bool" where
  "num_truthy NaN = False"
| "num_truthy (Num r) = (r \<noteq> 0)"
| "num_truthy PosInfinity = True"
| "num_truthy NegInfinity = True"

text \<open>\<^verbatim>\<open>x || 0\<close> on numbers.\<close>

definition num_or_zero :: "jsnum \<Rightarrow> jsnum" where
  "num_or_zero x = (if num_truthy x then x else Num 0)"

text \<open>\<^verbatim>\<open>n || 0\<close> on an integer count taken from JSON.\<close>

definition int_or_zero :: "int \<Rightarrow> int" where
  "int_or_zero n = (if n \<noteq> 0 then n else 0)"

text \<open>Truthiness of an optional string: \<^verbatim>\<open>undefined\<close> and the empty string are falsy.\<close>

fun str_truthy :: "string option \<Rightarrow> bool" where
  "str_truthy None = False"
| "str_truthy (Some s) = (s \<noteq> [])"

text \<open>\<^verbatim>\<open>x || null\<close> on an optional string.\<close>

definition or_null :: "string option \<Rightarrow> string option" where
  "or_null x = (if str_truthy x then x else None)"

subsection \<open>The built-in \<^verbatim>\<open>parseFloat\<close>\<close>

text \<open>
  The Number value of a rational: the double nearest to it, ties to even. A magnitude that
  rounds to \<open>2 ^ 1024\<close> or more gives an infinity; one of at most half the smallest double,
  \<open>2 ^ - 1074\<close>, gives zero. \<open>binaryExponent q\<close> is, for a positive \<open>q\<close>, the \<open>e\<close> with
  \<open>2 ^ e \<le> q < 2 ^ (e + 1)\<close>; the doubles of that binade are \<open>2 ^ (e - 52)\<close> apart, and
  those below \<open>2 ^ - 1022\<close> are \<open>2 ^ - 1074\<close> apart.
\<close>

function bitLength :: "int \<Rightarrow> nat" where
  "bitLength i = (if i \<le> 0 then 0 else Suc (bitLength (i div 2)))"
  by auto
termination
  by (relation "measure nat") auto

definition pow2 :: "int \<Rightarrow> rat" where
  "pow2 e = (if 0 \<le> e then 2 ^ nat e else 1 / 2 ^ nat (- e))"

definition binaryExponent :: "rat \<Rightarrow> int" where
  "binaryExponent q =
     (let e0 = int (bitLength (fst (quotient_of q))) - int (bitLength (snd (quotient_of q)))
      in if pow2 e0 \<le> q then e0 else e0 - 1)"

definition roundTiesToEven :: "rat \<Rightarrow> int" where
  "roundTiesToEven q =
     (let f = \<lfloor>q\<rfloor>; r = q - rat_of_int f
      in if r < 1 / 2 then f else if 1 / 2 < r then f + 1 else if even f then f else f + 1)"

definition toNumber :: "rat \<Rightarrow> jsnum" where
  "toNumber q =
     (if q = 0 then Num 0
      else
        let m = \<bar>q\<bar>;
            ulp = pow2 (max (binaryExponent m) (- 1022) - 52);
            v = rat_of_int (roundTiesToEven (m / ulp)) * ulp
        in if 1024 \<le> binaryExponent v then (if 0 < q then PosInfinity else NegInfinity)
           else Num (if 0 < q then v else - v))"

text \<open>
  \<^verbatim>\<open>parseFloat\<close> skips leading white space, reads an optional sign and then the longest
  prefix that is a decimal literal (\<^verbatim>\<open>Infinity\<close>, or digits with an optional fraction and an
  optional exponent); with no such prefix the result is \<^verbatim>\<open>NaN\<close>. The result is the Number
  value of the decimal that was read. The white space characters with codes below 256 are
  the tabulators, the line feed, the form feed, the carriage return, the space and the
  no-break space.
\<close>

definition isWhiteSpace :: "char \<Rightarrow> bool" where
  "isWhiteSpace c = (c \<in> set [CHR 0x09, CHR 0x0A, CHR 0x0B, CHR 0x0C, CHR 0x0D, CHR 0x20, CHR 0xA0])"

definition isDigit :: "char \<Rightarrow> bool" where
  "isDigit c = (c \<in> set ''0123456789'')"

definition digitsVal :: "string \<Rightarrow> int" where
  "digitsVal ds = foldl (\<lambda>a c. 10 * a + (of_char c - 48)) 0 ds"

definition scale10 :: "rat \<Rightarrow> int \<Rightarrow> rat" where
  "scale10 r k = (if 0 \<le> k then r * 10 ^ nat k else r / 10 ^ nat (- k))"

text \<open>The exponent part: \<^verbatim>\<open>e\<close> or \<^verbatim>\<open>E\<close>, an optional sign and at least one digit.\<close>

definition exponentPart :: "string \<Rightarrow> int" where
  "exponentPart s =
     (case s of
        [] \<Rightarrow> 0
      | c # r \<Rightarrow>
          if c = CHR ''e'' \<or> c = CHR ''E'' then
            (case r of
               [] \<Rightarrow> 0
             | d # r' \<Rightarrow>
                 if d = CHR ''-'' then - digitsVal (takeWhile isDigit r')
                 else if d = CHR ''+'' then digitsVal (takeWhile isDigit r')
                 else digitsVal (takeWhile isDigit r))
          else 0)"

definition parseFloat :: "string \<Rightarrow> jsnum" where
  "parseFloat input =
     (let s0 = dropWhile isWhiteSpace input;
          neg = (take 1 s0 = ''-'');
          s = (if take 1 s0 = ''-'' \<or> take 1 s0 = ''+'' then drop 1 s0 else s0)
      in if take 8 s = ''Infinity'' then (if neg then NegInfinity else PosInfinity)
         else
           let ip = takeWhile isDigit s;
               r1 = dropWhile isDigit s;
               fp = (if take 1 r1 = ''.'' then takeWhile isDigit (drop 1 r1) else []);
               r2 = (if take 1 r1 = ''.'' then dropWhile isDigit (drop 1 r1) else r1);
               m = rat_of_int (digitsVal (ip @ fp))
           in if ip = [] \<and> fp = [] then NaN
              else toNumber (scale10 (if neg then - m else m) (exponentPart r2 - int (length fp))))"


text \<open>
  \<^verbatim>\<open>new Date(s)\<close>: the date built from a remote time stamp is represented by the
  string it was built from.
\<close>

datatype Date = Date string

text \<open>\<^verbatim>\<open>s ? new Date(s) : null\<close>.\<close>

definition date_or_null :: "string \<Rightarrow> Date option" where
  "date_or_null s = (if s \<noteq> [] then Some (Date s) else None)"

text \<open>\<^verbatim>\<open>s ? parseFloat(s) : null\<close> on an optional string.\<close>

definition parse_or_null :: "string option \<Rightarrow> jsnum option" where
  "parse_or_null x = (case x of None \<Rightarrow> None | Some s \<Rightarrow> if s \<noteq> [] then Some (parseFloat s) else None)"

text \<open>
  \<^verbatim>\<open>Number.prototype.toString\<close> on an integer of a magnitude up to \<open>2 ^ 53\<close>, the range in
  which every integer is a number of its own: the decimal digits, after the sign.
\<close>

fun natToString :: "nat \<Rightarrow> string" where
  "natToString n = (if n < 10 then [char_of (48 + n)] else natToString (n div 10) @ [char_of (48 + n mod 10)])"

definition intToString :: "int \<Rightarrow> string" where
  "intToString i = (if i < 0 then CHR ''-'' # natToString (nat (- i)) else natToString (nat i))"

section \<open>Remote records (the interfaces of the Shopify service)\<close>

record ShopifyCustomer =
  sc_id :: string
  sc_email :: "string option"
  sc_first_name :: "string option"
  sc_last_name :: "string option"
  sc_phone :: "string option"
  sc_total_spent :: string
  sc_orders_count :: int
  sc_created_at :: string
  sc_updated_at :: string

record ShopifyVariant =
  v_price :: string
  v_compare_at_price :: "string option"
  v_inventory_quantity :: "int option"

record ShopifyProduct =
  sp_id :: string
  sp_title :: string
  sp_handle :: "string option"
  sp_vendor :: "string option"
  sp_product_type :: "string option"
  sp_status :: "string option"
  sp_variants :: "ShopifyVariant list"
  sp_created_at :: string
  sp_updated_at :: string

record ShopifyLineItem =
  li_id :: string
  li_product_id :: "string option"
  li_title :: string
  li_quantity :: int
  li_price :: string
  li_total_discount :: "string option"
  li_sku :: "string option"
  li_variant_title :: "string option"

record ShopifyOrder =
  so_id :: string
  so_order_number :: "int option"
  so_email :: "string option"
  so_financial_status :: "string option"
  so_fulfillment_status :: "string option"
  so_total_price :: string
  so_subtotal_price :: "string option"
  so_total_tax :: "string option"
  so_total_discounts :: "string option"
  so_currency :: "string option"
  so_customer :: "string option"
  so_line_items :: "ShopifyLineItem list"
  so_created_at :: string
  so_updated_at :: string

text \<open>
  \<open>so_customer\<close> is the \<^verbatim>\<open>customer?.id\<close> of the order: \<open>None\<close> when the order has no
  \<^verbatim>\<open>customer\<close> object.
\<close>

section \<open>The store\<close>

text \<open>
  Every reconciled table has rows with a generated primary key \<^verbatim>\<open>id\<close>, the tenant and the
  data object written by the ingestion; the data object of every table starts with
  \<^verbatim>\<open>shopifyId\<close>. The columns \<^verbatim>\<open>createdAt\<close> and \<^verbatim>\<open>updatedAt\<close>, which the database fills
  from its clock, are left out.
\<close>

record Data =
  shopifyId :: string

record CustomerData = Data +
  c_email :: "string option"
  c_firstName :: "string option"
  c_lastName :: "string option"
  c_phone :: "string option"
  c_totalSpent :: jsnum
  c_ordersCount :: int
  c_shopifyCreatedAt :: "Date option"
  c_shopifyUpdatedAt :: "Date option"

record ProductData = Data +
  p_title :: string
  p_handle :: "string option"
  p_vendor :: "string option"
  p_productType :: "string option"
  p_status :: "string option"
  p_price :: "jsnum option"
  p_compareAtPrice :: "jsnum option"
  p_inventoryQuantity :: int
  p_shopifyCreatedAt :: "Date option"
  p_shopifyUpdatedAt :: "Date option"

record OrderData = Data +
  o_orderNumber :: "string option"
  o_email :: "string option"
  o_financialStatus :: "string option"
  o_fulfillmentStatus :: "string option"
  o_totalPrice :: jsnum
  o_subtotalPrice :: "jsnum option"
  o_totalTax :: "jsnum option"
  o_totalDiscounts :: "jsnum option"
  o_currency :: string
  o_customerId :: "nat option"
  o_shopifyCreatedAt :: "Date option"
  o_shopifyUpdatedAt :: "Date option"

record OrderItemData =
  i_orderId :: nat
  i_productId :: "nat option"
  i_shopifyProductId :: "string option"
  i_title :: string
  i_quantity :: int
  i_price :: jsnum
  i_totalDiscount :: "jsnum option"
  i_sku :: "string option"
  i_variantTitle :: "string option"

record 'd Row =
  row_id :: nat
  tenantId :: string
  data :: 'd

record OrderItem =
  item_id :: nat
  item :: OrderItemData

record Tenant =
  tenant_id :: string
  shopDomain :: string
  accessToken :: string

text \<open>
  The generated primary keys (Prisma's client-side identifiers) are represented by a
  counter: \<open>nextId\<close> is the next key to be handed out, so a new key is always fresh.
\<close>

record store =
  tenants :: "Tenant list"
  customers :: "CustomerData Row list"
  products :: "ProductData Row list"
  orders :: "OrderData Row list"
  orderItems :: "OrderItem list"
  nextId :: nat

subsection \<open>The Prisma operations the ingestion uses\<close>

text \<open>\<^verbatim>\<open>findUnique({ where: { tenantId_shopifyId: { tenantId, shopifyId } } })\<close>.\<close>

definition findUnique :: "string \<Rightarrow> string \<Rightarrow> ('a Data_scheme) Row list \<Rightarrow> ('a Data_scheme) Row option" where
  "findUnique t sid rows = find (\<lambda>r. tenantId r = t \<and> shopifyId (data r) = sid) rows"

text \<open>\<^verbatim>\<open>update({ where: { id }, data })\<close>: the row with that key gets the new data object.\<close>

definition update :: "nat \<Rightarrow> 'd \<Rightarrow> 'd Row list \<Rightarrow> 'd Row list" where
  "update i d rows = map (\<lambda>r. if row_id r = i then r\<lparr>data := d\<rparr> else r) rows"

text \<open>\<^verbatim>\<open>create({ data: { ...data, tenantId } })\<close> with the generated key \<open>n\<close>.\<close>

definition create :: "nat \<Rightarrow> string \<Rightarrow> 'd \<Rightarrow> 'd Row list \<Rightarrow> 'd Row list" where
  "create n t d rows = rows @ [\<lparr>row_id = n, tenantId = t, data = d\<rparr>]"

text \<open>\<^verbatim>\<open>orderItem.deleteMany({ where: { orderId } })\<close>.\<close>

definition deleteMany :: "nat \<Rightarrow> OrderItem list \<Rightarrow> OrderItem list" where
  "deleteMany oid items = filter (\<lambda>it. i_orderId (item it) \<noteq> oid) items"

text \<open>\<^verbatim>\<open>tenant.findUnique({ where: { shopDomain } })\<close>.\<close>

definition findTenant :: "string \<Rightarrow> Tenant list \<Rightarrow> Tenant option" where
  "findTenant domain ts = find (\<lambda>t. shopDomain t = domain) ts"


section \<open>The Shopify service\<close>

datatype error = AxiosError string | SyntaxError string | TypeError string

fun message :: "error \<Rightarrow> string" where
  "message (AxiosError m) = m"
| "message (SyntaxError m) = m"
| "message (TypeError m) = m"

record Params =
  limit :: "nat option"
  status :: "string option"
  page_info :: "string option"

record Request =
  baseURL :: string
  access_token :: string
  url :: string
  params :: Params

text \<open>What the service reads of a response: the fields of its body and the link header.\<close>

record Response =
  data_customers :: "ShopifyCustomer list option"
  data_products :: "ShopifyProduct list option"
  data_orders :: "ShopifyOrder list option"
  data_customer :: "ShopifyCustomer option"
  data_product :: "ShopifyProduct option"
  data_order :: "ShopifyOrder option"
  headers_link :: "string option"

text \<open>
  The transport (axios and the remote shop): a request is answered from the state \<open>'w\<close> of
  the outside world, which it may change; a failed request is an \<open>Inl\<close>.
\<close>

type_synonym 'w http = "Request \<Rightarrow> 'w \<Rightarrow> (error + Response) \<times> 'w"

record ShopifyService =
  svc_shopDomain :: string
  svc_accessToken :: string

definition client_get :: "'w http \<Rightarrow> ShopifyService \<Rightarrow> string \<Rightarrow> Params \<Rightarrow> 'w \<Rightarrow> (error + Response) \<times> 'w" where
  "client_get http svc path ps w =
     http \<lparr>baseURL = ''https://'' @ svc_shopDomain svc @ ''/admin/api/2024-01'',
           access_token = svc_accessToken svc, url = path, params = ps\<rparr> w"

subsection \<open>The pagination link\<close>

text \<open>
  The regular expression of the service, \<^verbatim>\<open>/<[^>]*page_info=([^&>]+)[^>]*>; rel="next"/\<close>,
  is made of literals, greedy stars over a negated character class and one capturing
  group, a greedy plus over a negated class. \<open>regexExec\<close> is the backtracking search of
  \<^verbatim>\<open>String.prototype.match\<close>: the leftmost start, and at each star the longest run first.
  Its result is the text of the group.
\<close>

datatype atom = Lit string | StarNot string | GroupPlusNot string

fun firstDown :: "(nat \<Rightarrow> 'a option) \<Rightarrow> nat \<Rightarrow> nat \<Rightarrow> 'a option" where
  "firstDown f lo 0 = (if lo = 0 then f 0 else None)"
| "firstDown f lo (Suc k) =
     (if Suc k < lo then None
      else case f (Suc k) of Some r \<Rightarrow> Some r | None \<Rightarrow> firstDown f lo k)"

primrec matchHere :: "atom list \<Rightarrow> string \<Rightarrow> string \<Rightarrow> string option" where
  "matchHere [] s cap = Some cap"
| "matchHere (a # ps) s cap =
     (case a of
        Lit l \<Rightarrow> if take (length l) s = l then matchHere ps (drop (length l) s) cap else None
      | StarNot cs \<Rightarrow>
          firstDown (\<lambda>k. matchHere ps (drop k s) cap) 0 (length (takeWhile (\<lambda>c. c \<notin> set cs) s))
      | GroupPlusNot cs \<Rightarrow>
          firstDown (\<lambda>k. matchHere ps (drop k s) (take k s)) 1 (length (takeWhile (\<lambda>c. c \<notin> set cs) s)))"

fun regexExec :: "atom list \<Rightarrow> string \<Rightarrow> string option" where
  "regexExec ps [] = matchHere ps [] []"
| "regexExec ps (c # s) =
     (case matchHere ps (c # s) [] of Some cap \<Rightarrow> Some cap | None \<Rightarrow> regexExec ps s)"

definition nextLink :: "atom list" where
  "nextLink = [Lit ''<'', StarNot ''>'', Lit ''page_info='', GroupPlusNot ''&>'', StarNot ''>'',
               Lit (''>; rel='' @ [CHR 0x22] @ ''next'' @ [CHR 0x22])]"

text \<open>An atom stops at a character that it cannot read.\<close>

fun stopsAt :: "char \<Rightarrow> atom \<Rightarrow> bool" where
  "stopsAt c (Lit l) = (c \<notin> set l)"
| "stopsAt c (StarNot cs) = (c \<in> set cs)"
| "stopsAt c (GroupPlusNot cs) = (c \<in> set cs)"

subsection \<open>Collections: the cursor loop\<close>

text \<open>
  \<^verbatim>\<open>getCustomers\<close>, \<^verbatim>\<open>getProducts\<close> and \<^verbatim>\<open>getOrders\<close> are the same \<^verbatim>\<open>do ... while (pageInfo)\<close>
  loop; they differ in the path, in the field of the body they read and in the
  \<^verbatim>\<open>status\<close> parameter, which only \<^verbatim>\<open>getOrders\<close> sends. The loop runs as long as the remote
  side keeps sending a next link, so it is a partial function: \<open>None\<close> is a loop that never
  returns.
\<close>

definition nextPageInfo :: "Response \<Rightarrow> string option" where
  "nextPageInfo response =
     (case headers_link response of
        None \<Rightarrow> None
      | Some linkHeader \<Rightarrow> if linkHeader \<noteq> [] then regexExec nextLink linkHeader else None)"

partial_function (option) getAll ::
  "'w http \<Rightarrow> ShopifyService \<Rightarrow> string \<Rightarrow> (Response \<Rightarrow> 'r list option) \<Rightarrow> nat \<Rightarrow> string option
     \<Rightarrow> string option \<Rightarrow> 'r list \<Rightarrow> 'w \<Rightarrow> ((error + 'r list) \<times> 'w) option" where
  "getAll http svc path field pageLimit st pageInfo allRecords w =
     (case client_get http svc path
             \<lparr>limit = Some pageLimit, status = st, page_info = (if str_truthy pageInfo then pageInfo else None)\<rparr> w of
        (Inl e, w') \<Rightarrow> Some (Inl e, w')
      | (Inr response, w') \<Rightarrow>
          (let allRecords' = allRecords @ (case field response of Some xs \<Rightarrow> xs | None \<Rightarrow> []);
               pageInfo' = nextPageInfo response
           in if str_truthy pageInfo' then getAll http svc path field pageLimit st pageInfo' allRecords' w'
              else Some (Inr allRecords', w')))"

declare getAll.simps [code]

definition getCustomers :: "'w http \<Rightarrow> ShopifyService \<Rightarrow> nat \<Rightarrow> 'w \<Rightarrow> ((error + ShopifyCustomer list) \<times> 'w) option" where
  "getCustomers http svc pageLimit w = getAll http svc ''/customers.json'' data_customers pageLimit None None [] w"

definition getProducts :: "'w http \<Rightarrow> ShopifyService \<Rightarrow> nat \<Rightarrow> 'w \<Rightarrow> ((error + ShopifyProduct list) \<times> 'w) option" where
  "getProducts http svc pageLimit w = getAll http svc ''/products.json'' data_products pageLimit None None [] w"

definition getOrders :: "'w http \<Rightarrow> ShopifyService \<Rightarrow> nat \<Rightarrow> string \<Rightarrow> 'w \<Rightarrow> ((error + ShopifyOrder list) \<times> 'w) option" where
  "getOrders http svc pageLimit st w = getAll http svc ''/orders.json'' data_orders pageLimit (Some st) None [] w"

subsection \<open>Single records\<close>

definition noParams :: Params where
  "noParams = \<lparr>limit = None, status = None, page_info = None\<rparr>"

definition getCustomer :: "'w http \<Rightarrow> ShopifyService \<Rightarrow> string \<Rightarrow> 'w \<Rightarrow> ShopifyCustomer option \<times> 'w" where
  "getCustomer http svc customerId w =
     (case client_get http svc (''/customers/'' @ customerId @ ''.json'') noParams w of
        (Inl e, w') \<Rightarrow> (None, w')
      | (Inr response, w') \<Rightarrow> (data_customer response, w'))"

definition getProduct :: "'w http \<Rightarrow> ShopifyService \<Rightarrow> string \<Rightarrow> 'w \<Rightarrow> ShopifyProduct option \<times> 'w" where
  "getProduct http svc productId w =
     (case client_get http svc (''/products/'' @ productId @ ''.json'') noParams w of
        (Inl e, w') \<Rightarrow> (None, w')
      | (Inr response, w') \<Rightarrow> (data_product response, w'))"

definition getOrder :: "'w http \<Rightarrow> ShopifyService \<Rightarrow> string \<Rightarrow> 'w \<Rightarrow> ShopifyOrder option \<times> 'w" where
  "getOrder http svc orderId w =
     (case client_get http svc (''/orders/'' @ orderId @ ''.json'') noParams w of
        (Inl e, w') \<Rightarrow> (None, w')
      | (Inr response, w') \<Rightarrow> (data_order response, w'))"


section \<open>The ingestion service\<close>

record IngestionService =
  shopifyService :: ShopifyService
  svc_tenantId :: string

definition newIngestionService :: "string \<Rightarrow> string \<Rightarrow> string \<Rightarrow> IngestionService" where
  "newIngestionService tid domain tok =
     \<lparr>shopifyService = \<lparr>svc_shopDomain = domain, svc_accessToken = tok\<rparr>, svc_tenantId = tid\<rparr>"

record Counts =
  created :: nat
  updated :: nat

subsection \<open>The data objects built from the remote records\<close>

definition customerData :: "ShopifyCustomer \<Rightarrow> CustomerData" where
  "customerData c =
     \<lparr>shopifyId = sc_id c,
      c_email = or_null (sc_email c),
      c_firstName = or_null (sc_first_name c),
      c_lastName = or_null (sc_last_name c),
      c_phone = or_null (sc_phone c),
      c_totalSpent = num_or_zero (parseFloat (sc_total_spent c)),
      c_ordersCount = int_or_zero (sc_orders_count c),
      c_shopifyCreatedAt = date_or_null (sc_created_at c),
      c_shopifyUpdatedAt = date_or_null (sc_updated_at c)\<rparr>"

text \<open>\<^verbatim>\<open>shopifyProduct.variants?.[0]\<close>.\<close>

definition firstVariant :: "ShopifyProduct \<Rightarrow> ShopifyVariant option" where
  "firstVariant p = (case sp_variants p of [] \<Rightarrow> None | v # _ \<Rightarrow> Some v)"

definition productData :: "ShopifyProduct \<Rightarrow> ProductData" where
  "productData p =
     (let price = (case firstVariant p of Some v \<Rightarrow> Some (parseFloat (v_price v)) | None \<Rightarrow> None);
          compareAtPrice = (case firstVariant p of Some v \<Rightarrow> parse_or_null (v_compare_at_price v) | None \<Rightarrow> None);
          inventoryQuantity =
            (case firstVariant p of
               Some v \<Rightarrow> (case v_inventory_quantity v of Some q \<Rightarrow> int_or_zero q | None \<Rightarrow> 0)
             | None \<Rightarrow> 0)
      in \<lparr>shopifyId = sp_id p,
          p_title = sp_title p,
          p_handle = or_null (sp_handle p),
          p_vendor = or_null (sp_vendor p),
          p_productType = or_null (sp_product_type p),
          p_status = or_null (sp_status p),
          p_price = price,
          p_compareAtPrice = compareAtPrice,
          p_inventoryQuantity = inventoryQuantity,
          p_shopifyCreatedAt = date_or_null (sp_created_at p),
          p_shopifyUpdatedAt = date_or_null (sp_updated_at p)\<rparr>)"

text \<open>
  A weak reference: the remote id, when it is truthy, is looked up among the rows of the
  tenant, and the reference is the key of the row found, or null.
\<close>

definition resolve :: "string \<Rightarrow> string option \<Rightarrow> ('a Data_scheme) Row list \<Rightarrow> nat option" where
  "resolve t ref rows =
     (case ref of
        None \<Rightarrow> None
      | Some rid \<Rightarrow>
          if rid \<noteq> [] then (case findUnique t rid rows of Some r \<Rightarrow> Some (row_id r) | None \<Rightarrow> None)
          else None)"

definition orderData :: "ShopifyOrder \<Rightarrow> nat option \<Rightarrow> OrderData" where
  "orderData ord customerId =
     \<lparr>shopifyId = so_id ord,
      o_orderNumber = (case so_order_number ord of Some n \<Rightarrow> or_null (Some (intToString n)) | None \<Rightarrow> None),
      o_email = or_null (so_email ord),
      o_financialStatus = or_null (so_financial_status ord),
      o_fulfillmentStatus = or_null (so_fulfillment_status ord),
      o_totalPrice = num_or_zero (parseFloat (so_total_price ord)),
      o_subtotalPrice = parse_or_null (so_subtotal_price ord),
      o_totalTax = parse_or_null (so_total_tax ord),
      o_totalDiscounts = parse_or_null (so_total_discounts ord),
      o_currency = (case so_currency ord of Some c \<Rightarrow> if c \<noteq> [] then c else ''USD'' | None \<Rightarrow> ''USD''),
      o_customerId = customerId,
      o_shopifyCreatedAt = date_or_null (so_created_at ord),
      o_shopifyUpdatedAt = date_or_null (so_updated_at ord)\<rparr>"

definition orderItemData :: "nat \<Rightarrow> nat option \<Rightarrow> ShopifyLineItem \<Rightarrow> OrderItemData" where
  "orderItemData orderId productId li =
     \<lparr>i_orderId = orderId,
      i_productId = productId,
      i_shopifyProductId = or_null (li_product_id li),
      i_title = li_title li,
      i_quantity = li_quantity li,
      i_price = num_or_zero (parseFloat (li_price li)),
      i_totalDiscount = parse_or_null (li_total_discount li),
      i_sku = or_null (li_sku li),
      i_variantTitle = or_null (li_variant_title li)\<rparr>"

subsection \<open>The reconciliation loops\<close>

text \<open>One round of the loop of \<^verbatim>\<open>ingestCustomers\<close>.\<close>

definition ingestCustomer :: "string \<Rightarrow> ShopifyCustomer \<Rightarrow> store \<times> Counts \<Rightarrow> store \<times> Counts" where
  "ingestCustomer t shopifyCustomer sc =
     (let s = fst sc; n = snd sc;
          existing = findUnique t (sc_id shopifyCustomer) (customers s);
          d = customerData shopifyCustomer
      in case existing of
           Some ex \<Rightarrow> (s\<lparr>customers := update (row_id ex) d (customers s)\<rparr>, n\<lparr>updated := updated n + 1\<rparr>)
         | None \<Rightarrow>
             (s\<lparr>customers := create (nextId s) t d (customers s), nextId := nextId s + 1\<rparr>,
              n\<lparr>created := created n + 1\<rparr>))"

definition ingestProduct :: "string \<Rightarrow> ShopifyProduct \<Rightarrow> store \<times> Counts \<Rightarrow> store \<times> Counts" where
  "ingestProduct t shopifyProduct sc =
     (let s = fst sc; n = snd sc;
          existing = findUnique t (sp_id shopifyProduct) (products s);
          d = productData shopifyProduct
      in case existing of
           Some ex \<Rightarrow> (s\<lparr>products := update (row_id ex) d (products s)\<rparr>, n\<lparr>updated := updated n + 1\<rparr>)
         | None \<Rightarrow>
             (s\<lparr>products := create (nextId s) t d (products s), nextId := nextId s + 1\<rparr>,
              n\<lparr>created := created n + 1\<rparr>))"

text \<open>The inner loop of \<^verbatim>\<open>ingestOrders\<close>: one \<^verbatim>\<open>orderItem.create\<close> for every line item.\<close>

definition createOrderItem :: "string \<Rightarrow> nat \<Rightarrow> ShopifyLineItem \<Rightarrow> store \<Rightarrow> store" where
  "createOrderItem t orderId li s =
     (let productId = resolve t (li_product_id li) (products s)
      in s\<lparr>orderItems := orderItems s @ [\<lparr>item_id = nextId s, item = orderItemData orderId productId li\<rparr>],
           nextId := nextId s + 1\<rparr>)"

definition createOrderItems :: "string \<Rightarrow> nat \<Rightarrow> ShopifyLineItem list \<Rightarrow> store \<Rightarrow> store" where
  "createOrderItems t orderId lis s = foldl (\<lambda>s' li. createOrderItem t orderId li s') s lis"

text \<open>One round of the loop of \<^verbatim>\<open>ingestOrders\<close>.\<close>

definition ingestOrder :: "string \<Rightarrow> ShopifyOrder \<Rightarrow> store \<times> Counts \<Rightarrow> store \<times> Counts" where
  "ingestOrder t shopifyOrder sc =
     (let s = fst sc; n = snd sc;
          existing = findUnique t (so_id shopifyOrder) (orders s);
          customerId = resolve t (so_customer shopifyOrder) (customers s);
          d = orderData shopifyOrder customerId;
          orderId = (case existing of Some ex \<Rightarrow> row_id ex | None \<Rightarrow> nextId s);
          s1 = (case existing of
                  Some ex \<Rightarrow> s\<lparr>orders := update (row_id ex) d (orders s)\<rparr>
                | None \<Rightarrow> s\<lparr>orders := create (nextId s) t d (orders s), nextId := nextId s + 1\<rparr>);
          n1 = (case existing of
                  Some ex \<Rightarrow> n\<lparr>updated := updated n + 1\<rparr>
                | None \<Rightarrow> n\<lparr>created := created n + 1\<rparr>);
          s2 = (if so_line_items shopifyOrder \<noteq> [] then
                  createOrderItems t orderId (so_line_items shopifyOrder)
                    (s1\<lparr>orderItems := deleteMany orderId (orderItems s1)\<rparr>)
                else s1)
      in (s2, n1))"

definition noCounts :: Counts where
  "noCounts = \<lparr>created = 0, updated = 0\<rparr>"

text \<open>
  The three ingestions: the collection is fetched first, and a failed fetch is thrown on
  to the caller before the store is touched.
\<close>

definition ingestCustomers ::
  "'w http \<Rightarrow> IngestionService \<Rightarrow> 'w \<times> store \<Rightarrow> ((error + Counts) \<times> 'w \<times> store) option" where
  "ingestCustomers http this ws =
     (case getCustomers http (shopifyService this) 250 (fst ws) of
        None \<Rightarrow> None
      | Some (Inl e, w') \<Rightarrow> Some (Inl e, w', snd ws)
      | Some (Inr shopifyCustomers, w') \<Rightarrow>
          (let r = foldl (\<lambda>sc c. ingestCustomer (svc_tenantId this) c sc) (snd ws, noCounts) shopifyCustomers
           in Some (Inr (snd r), w', fst r)))"

definition ingestProducts ::
  "'w http \<Rightarrow> IngestionService \<Rightarrow> 'w \<times> store \<Rightarrow> ((error + Counts) \<times> 'w \<times> store) option" where
  "ingestProducts http this ws =
     (case getProducts http (shopifyService this) 250 (fst ws) of
        None \<Rightarrow> None
      | Some (Inl e, w') \<Rightarrow> Some (Inl e, w', snd ws)
      | Some (Inr shopifyProducts, w') \<Rightarrow>
          (let r = foldl (\<lambda>sc p. ingestProduct (svc_tenantId this) p sc) (snd ws, noCounts) shopifyProducts
           in Some (Inr (snd r), w', fst r)))"

definition ingestOrders ::
  "'w http \<Rightarrow> IngestionService \<Rightarrow> 'w \<times> store \<Rightarrow> ((error + Counts) \<times> 'w \<times> store) option" where
  "ingestOrders http this ws =
     (case getOrders http (shopifyService this) 250 ''any'' (fst ws) of
        None \<Rightarrow> None
      | Some (Inl e, w') \<Rightarrow> Some (Inl e, w', snd ws)
      | Some (Inr shopifyOrders, w') \<Rightarrow>
          (let r = foldl (\<lambda>sc ord. ingestOrder (svc_tenantId this) ord sc) (snd ws, noCounts) shopifyOrders
           in Some (Inr (snd r), w', fst r)))"




subsection \<open>All three ingestions at once\<close>

text \<open>
  \<^verbatim>\<open>ingestAll\<close> calls the three ingestions one after the other inside the array passed to
  \<^verbatim>\<open>Promise.all\<close>: each call runs up to its first \<^verbatim>\<open>await\<close>, the fetch of its collection,
  and hands back a pending promise, so all three are under way before any of them goes on.
  From then on the event loop runs them interleaved. The model keeps every ingestion that
  has been started as a job; a schedule, a list of job numbers, says whose turn it is. One
  turn of a job is the fetch of its collection or one round of its reconciliation loop
  (the interleaving inside a fetch or a round is not represented).
\<close>

datatype entity = Customers | Products | Orders

datatype task =
    Fetching
  | ReconcilingCustomers "ShopifyCustomer list" Counts
  | ReconcilingProducts "ShopifyProduct list" Counts
  | ReconcilingOrders "ShopifyOrder list" Counts
  | Fulfilled Counts
  | Rejected error

record job =
  j_this :: IngestionService
  j_entity :: entity
  j_task :: task

text \<open>What can be observed of the jobs: when an ingestion is called and when its promise settles.\<close>

datatype event = Begin string entity | End string entity

record 'w sys =
  net :: 'w
  db :: store
  jobs :: "job list"
  events :: "event list"

fun settledTask :: "task \<Rightarrow> bool" where
  "settledTask (Fulfilled n) = True"
| "settledTask (Rejected e) = True"
| "settledTask t = False"

fun fetchFor :: "'w http \<Rightarrow> IngestionService \<Rightarrow> entity \<Rightarrow> 'w \<Rightarrow> (task \<times> 'w) option" where
  "fetchFor http this Customers w =
     (case getCustomers http (shopifyService this) 250 w of
        None \<Rightarrow> None
      | Some (Inl e, w') \<Rightarrow> Some (Rejected e, w')
      | Some (Inr xs, w') \<Rightarrow> Some (ReconcilingCustomers xs noCounts, w'))"
| "fetchFor http this Products w =
     (case getProducts http (shopifyService this) 250 w of
        None \<Rightarrow> None
      | Some (Inl e, w') \<Rightarrow> Some (Rejected e, w')
      | Some (Inr xs, w') \<Rightarrow> Some (ReconcilingProducts xs noCounts, w'))"
| "fetchFor http this Orders w =
     (case getOrders http (shopifyService this) 250 ''any'' w of
        None \<Rightarrow> None
      | Some (Inl e, w') \<Rightarrow> Some (Rejected e, w')
      | Some (Inr xs, w') \<Rightarrow> Some (ReconcilingOrders xs noCounts, w'))"

text \<open>One turn of a job that has not settled.\<close>

fun stepTask :: "'w http \<Rightarrow> IngestionService \<Rightarrow> entity \<Rightarrow> task \<Rightarrow> 'w \<times> store \<Rightarrow> (task \<times> 'w \<times> store) option" where
  "stepTask http this k Fetching (w, s) =
     (case fetchFor http this k w of None \<Rightarrow> None | Some (t, w') \<Rightarrow> Some (t, w', s))"
| "stepTask http this k (ReconcilingCustomers [] n) (w, s) = Some (Fulfilled n, w, s)"
| "stepTask http this k (ReconcilingCustomers (x # xs) n) (w, s) =
     (let r = ingestCustomer (svc_tenantId this) x (s, n) in Some (ReconcilingCustomers xs (snd r), w, fst r))"
| "stepTask http this k (ReconcilingProducts [] n) (w, s) = Some (Fulfilled n, w, s)"
| "stepTask http this k (ReconcilingProducts (x # xs) n) (w, s) =
     (let r = ingestProduct (svc_tenantId this) x (s, n) in Some (ReconcilingProducts xs (snd r), w, fst r))"
| "stepTask http this k (ReconcilingOrders [] n) (w, s) = Some (Fulfilled n, w, s)"
| "stepTask http this k (ReconcilingOrders (x # xs) n) (w, s) =
     (let r = ingestOrder (svc_tenantId this) x (s, n) in Some (ReconcilingOrders xs (snd r), w, fst r))"
| "stepTask http this k (Fulfilled n) (w, s) = Some (Fulfilled n, w, s)"
| "stepTask http this k (Rejected e) (w, s) = Some (Rejected e, w, s)"

text \<open>
  The turn of job \<open>i\<close>: a job that has settled, or a number that names no job, lets the
  turn pass. \<open>None\<close> is a fetch that never returns.
\<close>

text \<open>The first \<open>m\<close> turns of a job that runs with nothing in between.\<close>

fun turns :: "nat \<Rightarrow> 'w http \<Rightarrow> IngestionService \<Rightarrow> entity \<Rightarrow> task \<Rightarrow> 'w \<times> store \<Rightarrow> (task \<times> 'w \<times> store) option" where
  "turns 0 http this k t ws = Some (t, fst ws, snd ws)"
| "turns (Suc m) http this k t ws =
     (case stepTask http this k t ws of
        None \<Rightarrow> None
      | Some (t', w', s') \<Rightarrow> turns m http this k t' (w', s'))"

text \<open>The settled task that stands for the result of an ingestion.\<close>

fun settledAs :: "error + Counts \<Rightarrow> task" where
  "settledAs (Inl e) = Rejected e"
| "settledAs (Inr n) = Fulfilled n"

definition stepJob :: "'w http \<Rightarrow> nat \<Rightarrow> 'w sys \<Rightarrow> 'w sys option" where
  "stepJob http i \<sigma> =
     (if i < length (jobs \<sigma>) \<and> \<not> settledTask (j_task (jobs \<sigma> ! i)) then
        (let j = jobs \<sigma> ! i in
         case stepTask http (j_this j) (j_entity j) (j_task j) (net \<sigma>, db \<sigma>) of
           None \<Rightarrow> None
         | Some (t', w', s') \<Rightarrow>
             Some (\<sigma>\<lparr>net := w', db := s', jobs := (jobs \<sigma>)[i := j\<lparr>j_task := t'\<rparr>],
                     events := events \<sigma> @ (if settledTask t' then [End (svc_tenantId (j_this j)) (j_entity j)] else [])\<rparr>))
      else Some \<sigma>)"

record AllCounts =
  r_customers :: Counts
  r_products :: Counts
  r_orders :: Counts

text \<open>
  \<^verbatim>\<open>Promise.all\<close> over the three promises: rejected as soon as one of them is rejected,
  fulfilled with the three results when all three are fulfilled, pending otherwise.
\<close>

fun rejection :: "task \<Rightarrow> error option" where
  "rejection (Rejected e) = Some e"
| "rejection t = None"

fun fulfilment :: "task \<Rightarrow> Counts option" where
  "fulfilment (Fulfilled n) = Some n"
| "fulfilment t = None"

definition promiseAll :: "task \<Rightarrow> task \<Rightarrow> task \<Rightarrow> (error + AllCounts) option" where
  "promiseAll t1 t2 t3 =
     (case rejection t1 of
        Some e \<Rightarrow> Some (Inl e)
      | None \<Rightarrow>
     (case rejection t2 of
        Some e \<Rightarrow> Some (Inl e)
      | None \<Rightarrow>
     (case rejection t3 of
        Some e \<Rightarrow> Some (Inl e)
      | None \<Rightarrow>
     (case fulfilment t1 of
        None \<Rightarrow> None
      | Some n1 \<Rightarrow>
     (case fulfilment t2 of
        None \<Rightarrow> None
      | Some n2 \<Rightarrow>
     (case fulfilment t3 of
        None \<Rightarrow> None
      | Some n3 \<Rightarrow> Some (Inr \<lparr>r_customers = n1, r_products = n2, r_orders = n3\<rparr>)))))))"

text \<open>
  \<^verbatim>\<open>await Promise.all(...)\<close> for the three jobs from number \<open>b\<close> on: the turns of the schedule
  are taken until the three promises are settled as a whole. The rest of the schedule is
  handed back. \<open>None\<close> is an await that does not come back within the schedule.
\<close>

fun awaitAll :: "'w http \<Rightarrow> nat \<Rightarrow> nat list \<Rightarrow> 'w sys \<Rightarrow> ((error + AllCounts) \<times> nat list \<times> 'w sys) option" where
  "awaitAll http b sched \<sigma> =
     (case promiseAll (j_task (jobs \<sigma> ! b)) (j_task (jobs \<sigma> ! (b + 1))) (j_task (jobs \<sigma> ! (b + 2))) of
        Some r \<Rightarrow> Some (r, sched, \<sigma>)
      | None \<Rightarrow>
          (case sched of
             [] \<Rightarrow> None
           | i # rest \<Rightarrow> (case stepJob http i \<sigma> of None \<Rightarrow> None | Some \<sigma>' \<Rightarrow> awaitAll http b rest \<sigma>')))"

definition startAll :: "IngestionService \<Rightarrow> 'w sys \<Rightarrow> 'w sys" where
  "startAll this \<sigma> =
     \<sigma>\<lparr>jobs := jobs \<sigma> @ [\<lparr>j_this = this, j_entity = Customers, j_task = Fetching\<rparr>,
                        \<lparr>j_this = this, j_entity = Products, j_task = Fetching\<rparr>,
                        \<lparr>j_this = this, j_entity = Orders, j_task = Fetching\<rparr>],
       events := events \<sigma> @ [Begin (svc_tenantId this) Customers, Begin (svc_tenantId this) Products,
                            Begin (svc_tenantId this) Orders]\<rparr>"

definition ingestAll ::
  "'w http \<Rightarrow> IngestionService \<Rightarrow> nat list \<Rightarrow> 'w sys \<Rightarrow> ((error + AllCounts) \<times> nat list \<times> 'w sys) option" where
  "ingestAll http this sched \<sigma> = awaitAll http (length (jobs \<sigma>)) sched (startAll this \<sigma>)"

section \<open>The scheduled sync\<close>

datatype logEntry = SyncCompleted string AllCounts | SyncFailed string string

text \<open>
  The body of the cron callback: the tenants are read once, and each is synced inside its
  own \<^verbatim>\<open>try\<close>.
\<close>

fun syncTenants :: "'w http \<Rightarrow> Tenant list \<Rightarrow> nat list \<Rightarrow> 'w sys \<Rightarrow> (logEntry list \<times> nat list \<times> 'w sys) option" where
  "syncTenants http [] sched \<sigma> = Some ([], sched, \<sigma>)"
| "syncTenants http (tenant # rest) sched \<sigma> =
     (case ingestAll http (newIngestionService (tenant_id tenant) (shopDomain tenant) (accessToken tenant)) sched \<sigma> of
        None \<Rightarrow> None
      | Some (r, sched', \<sigma>') \<Rightarrow>
          (case syncTenants http rest sched' \<sigma>' of
             None \<Rightarrow> None
           | Some (entries, sched'', \<sigma>'') \<Rightarrow>
               Some ((case r of
                        Inl e \<Rightarrow> SyncFailed (shopDomain tenant) (message e)
                      | Inr result \<Rightarrow> SyncCompleted (shopDomain tenant) result) # entries, sched'', \<sigma>'')))"

definition scheduledSync :: "'w http \<Rightarrow> nat list \<Rightarrow> 'w sys \<Rightarrow> (logEntry list \<times> nat list \<times> 'w sys) option" where
  "scheduledSync http sched \<sigma> = syncTenants http (tenants (db \<sigma>)) sched \<sigma>"


fun logDomain :: "logEntry \<Rightarrow> string" where
  "logDomain (SyncCompleted d r) = d"
| "logDomain (SyncFailed d m) = d"

section \<open>The webhook route\<close>

text \<open>
  What the route takes from Node: the HMAC-SHA256 of a text under a key, as base64
  (\<^verbatim>\<open>crypto.createHmac('sha256', secret).update(body, 'utf8').digest('base64')\<close>),
  \<^verbatim>\<open>JSON.parse\<close>, \<^verbatim>\<open>data.id.toString()\<close> on the parsed payload, which throws when the
  payload has no \<^verbatim>\<open>id\<close>, and \<^verbatim>\<open>toString()\<close> on a value that a body parser has parsed,
  which is the text \<^verbatim>\<open>[object Object]\<close> for an object.
\<close>

record 'j Node =
  hmacSha256Base64 :: "string \<Rightarrow> string \<Rightarrow> string"
  JSON_parse :: "string \<Rightarrow> error + 'j"
  idToString :: "'j \<Rightarrow> error + string"
  objectToString :: "'j \<Rightarrow> error + string"

text \<open>
  The request. \<open>content_type\<close> is the media type of its \<^verbatim>\<open>Content-Type\<close> header as the body
  parsers read it (lower case, without parameters), \<open>None\<close> for a request without a body
  or without the header; \<open>rawBody\<close> is the text of the body as it was sent. \<open>req_body\<close> is
  \<^verbatim>\<open>req.body\<close>: undefined, a value that a parser has parsed, or the Buffer of the raw
  body; \<open>req_body_read\<close> is the mark \<^verbatim>\<open>req._body\<close> that a body parser leaves on a request
  whose body it has read.
\<close>

datatype 'j body = Undefined | Parsed 'j | Buffer string

record 'j WebhookRequest =
  origin :: "string option"
  content_type :: "string option"
  x_shopify_hmac_sha256 :: "string option"
  x_shopify_shop_domain :: "string option"
  x_shopify_topic :: "string option"
  rawBody :: string
  req_body :: "'j body"
  req_body_read :: bool

record WebhookResponse =
  res_status :: nat
  res_json :: string

subsection \<open>The body parsers\<close>

text \<open>
  \<^verbatim>\<open>express.json()\<close>, \<^verbatim>\<open>express.urlencoded(...)\<close> and \<^verbatim>\<open>express.raw(...)\<close> work alike. A
  parser passes on, untouched, a request whose body a parser before it has read. Otherwise
  it reads the body when the content type of the request is its own, leaves the result in
  \<^verbatim>\<open>req.body\<close> and marks the request. What reading gives is the platform's: the parsed
  value or the Buffer, or an error with its HTTP status (malformed JSON, a body over the
  limit of the parser). \<open>unread\<close> is what a parser that does not read leaves in an
  undefined \<^verbatim>\<open>req.body\<close>: the empty object with body-parser 1
  (\<^verbatim>\<open>req.body = req.body || {}\<close>), nothing with body-parser 2.
\<close>

record HttpError =
  err_status :: "nat option"
  err_message :: string

record 'j Express =
  json_read :: "string \<Rightarrow> HttpError + 'j"
  urlencoded_read :: "string \<Rightarrow> HttpError + 'j"
  raw_read :: "string \<Rightarrow> HttpError + string"
  unread :: "'j option"

definition bodyParser ::
  "string \<Rightarrow> (string \<Rightarrow> HttpError + 'j body) \<Rightarrow> 'j option \<Rightarrow> 'j WebhookRequest
     \<Rightarrow> HttpError + 'j WebhookRequest" where
  "bodyParser type read0 un req =
     (if req_body_read req then Inr req
      else
        let req1 = req\<lparr>req_body := (case req_body req of
                                        Undefined \<Rightarrow> (case un of None \<Rightarrow> Undefined | Some d \<Rightarrow> Parsed d)
                                      | Parsed d \<Rightarrow> Parsed d
                                      | Buffer t \<Rightarrow> Buffer t)\<rparr>
        in if content_type req \<noteq> Some type then Inr req1
           else case read0 (rawBody req) of
                  Inl err \<Rightarrow> Inl err
                | Inr b \<Rightarrow> Inr (req1\<lparr>req_body := b, req_body_read := True\<rparr>))"

definition express_json :: "'j Express \<Rightarrow> 'j WebhookRequest \<Rightarrow> HttpError + 'j WebhookRequest" where
  "express_json x =
     bodyParser ''application/json''
       (\<lambda>t. case json_read x t of Inl err \<Rightarrow> Inl err | Inr d \<Rightarrow> Inr (Parsed d)) (unread x)"

definition express_urlencoded :: "'j Express \<Rightarrow> 'j WebhookRequest \<Rightarrow> HttpError + 'j WebhookRequest" where
  "express_urlencoded x =
     bodyParser ''application/x-www-form-urlencoded''
       (\<lambda>t. case urlencoded_read x t of Inl err \<Rightarrow> Inl err | Inr d \<Rightarrow> Inr (Parsed d)) (unread x)"

definition express_raw :: "'j Express \<Rightarrow> 'j WebhookRequest \<Rightarrow> HttpError + 'j WebhookRequest" where
  "express_raw x =
     bodyParser ''application/json''
       (\<lambda>t. case raw_read x t of Inl err \<Rightarrow> Inl err | Inr b \<Rightarrow> Inr (Buffer b)) (unread x)"

subsection \<open>The route\<close>

definition verifyShopifyWebhook :: "'j Node \<Rightarrow> string \<Rightarrow> string \<Rightarrow> string \<Rightarrow> bool" where
  "verifyShopifyWebhook node body signature secret = (hmacSha256Base64 node secret body = signature)"

text \<open>The three handlers catch whatever is thrown inside them.\<close>

definition handleOrderWebhook ::
  "'j Node \<Rightarrow> 'w http \<Rightarrow> string \<Rightarrow> string \<Rightarrow> string \<Rightarrow> 'j \<Rightarrow> 'w \<times> store \<Rightarrow> ('w \<times> store) option" where
  "handleOrderWebhook node http tid domain tok payload ws =
     (let ingestionService = newIngestionService tid domain tok in
      case idToString node payload of
        Inl e \<Rightarrow> Some ws
      | Inr orderId \<Rightarrow>
          (case getOrder http (shopifyService ingestionService) orderId (fst ws) of
             (None, w1) \<Rightarrow> Some (w1, snd ws)
           | (Some shopifyOrder, w1) \<Rightarrow>
               (case ingestOrders http ingestionService (w1, snd ws) of
                  None \<Rightarrow> None
                | Some (r, w2, s2) \<Rightarrow> Some (w2, s2))))"

definition handleCustomerWebhook ::
  "'w http \<Rightarrow> string \<Rightarrow> string \<Rightarrow> string \<Rightarrow> 'w \<times> store \<Rightarrow> ('w \<times> store) option" where
  "handleCustomerWebhook http tid domain tok ws =
     (case ingestCustomers http (newIngestionService tid domain tok) ws of
        None \<Rightarrow> None
      | Some (r, w2, s2) \<Rightarrow> Some (w2, s2))"

definition handleProductWebhook ::
  "'w http \<Rightarrow> string \<Rightarrow> string \<Rightarrow> string \<Rightarrow> 'w \<times> store \<Rightarrow> ('w \<times> store) option" where
  "handleProductWebhook http tid domain tok ws =
     (case ingestProducts http (newIngestionService tid domain tok) ws of
        None \<Rightarrow> None
      | Some (r, w2, s2) \<Rightarrow> Some (w2, s2))"

definition respond :: "nat \<Rightarrow> string \<Rightarrow> 'w \<times> store \<Rightarrow> (WebhookResponse \<times> 'w \<times> store) option" where
  "respond code text ws = Some (\<lparr>res_status = code, res_json = text\<rparr>, fst ws, snd ws)"

text \<open>
  \<^verbatim>\<open>req.body.toString()\<close>: the text of a Buffer, the platform's text for a parsed value, a
  \<^verbatim>\<open>TypeError\<close> on undefined.
\<close>

definition bodyToString :: "'j Node \<Rightarrow> 'j body \<Rightarrow> error + string" where
  "bodyToString node b =
     (case b of
        Undefined \<Rightarrow> Inl (TypeError ''Cannot read properties of undefined'')
      | Parsed d \<Rightarrow> objectToString node d
      | Buffer t \<Rightarrow> Inr t)"

definition postShopify ::
  "'j Node \<Rightarrow> 'w http \<Rightarrow> 'j WebhookRequest \<Rightarrow> 'w \<times> store \<Rightarrow> (WebhookResponse \<times> 'w \<times> store) option" where
  "postShopify node http req ws =
     (if \<not> str_truthy (x_shopify_hmac_sha256 req) \<or> \<not> str_truthy (x_shopify_shop_domain req)
         \<or> \<not> str_truthy (x_shopify_topic req)
      then respond 400 ''Missing required headers'' ws
      else
        let signature = the (x_shopify_hmac_sha256 req);
            domain = the (x_shopify_shop_domain req);
            topic = the (x_shopify_topic req)
        in case findTenant domain (tenants (snd ws)) of
             None \<Rightarrow> respond 404 ''Tenant not found'' ws
           | Some tenant \<Rightarrow>
               (case bodyToString node (req_body req) of
                  Inl e \<Rightarrow> respond 500 ''Webhook processing failed'' ws
                | Inr bodyString \<Rightarrow>
               if \<not> verifyShopifyWebhook node bodyString signature (accessToken tenant)
               then respond 401 ''Invalid webhook signature'' ws
               else
                 (case JSON_parse node bodyString of
                    Inl e \<Rightarrow> respond 500 ''Webhook processing failed'' ws
                  | Inr d \<Rightarrow>
                      (case (if topic = ''orders/create'' \<or> topic = ''orders/updated'' then
                               handleOrderWebhook node http (tenant_id tenant) (shopDomain tenant) (accessToken tenant) d ws
                             else if topic = ''customers/create'' \<or> topic = ''customers/update'' then
                               handleCustomerWebhook http (tenant_id tenant) (shopDomain tenant) (accessToken tenant) ws
                             else if topic = ''products/create'' \<or> topic = ''products/update'' then
                               handleProductWebhook http (tenant_id tenant) (shopDomain tenant) (accessToken tenant) ws
                             else if topic = ''orders/paid'' then
                               handleOrderWebhook node http (tenant_id tenant) (shopDomain tenant) (accessToken tenant) d ws
                             else Some ws) of
                         None \<Rightarrow> None
                       | Some ws' \<Rightarrow> respond 200 ''received'' ws'))))"

subsection \<open>The application\<close>

text \<open>
  \<^verbatim>\<open>server.ts\<close> at a request \<^verbatim>\<open>POST /api/webhooks/shopify\<close>. The request passes, in the
  order in which they are installed, the CORS check, \<^verbatim>\<open>express.json()\<close> and
  \<^verbatim>\<open>express.urlencoded(...)\<close>; the health route and the three other routers do not match
  its path; the webhook router hands it to \<^verbatim>\<open>express.raw(...)\<close> and to the route. An error
  that a step hands on ends at the error handler, which is installed last.
\<close>

record Env =
  FRONTEND_URL :: "string option"
  NODE_ENV :: "string option"

definition allowedOrigins :: "Env \<Rightarrow> string list" where
  "allowedOrigins env =
     map the (filter str_truthy [FRONTEND_URL env, Some ''http://localhost:3000'',
                                 Some ''https://xenofde-frontend-production.up.railway.app''])"

definition corsOrigin :: "Env \<Rightarrow> string option \<Rightarrow> HttpError + unit" where
  "corsOrigin env requestOrigin =
     (if \<not> str_truthy requestOrigin then Inr ()
      else if length (allowedOrigins env) = 0 \<or> the requestOrigin \<in> set (allowedOrigins env) then Inr ()
      else if NODE_ENV env = Some ''production'' then Inr ()
      else Inl \<lparr>err_status = None, err_message = ''Not allowed by CORS''\<rparr>)"

definition errorHandler :: "HttpError \<Rightarrow> 'w \<times> store \<Rightarrow> (WebhookResponse \<times> 'w \<times> store) option" where
  "errorHandler err ws =
     respond (case err_status err of None \<Rightarrow> 500 | Some n \<Rightarrow> if n = 0 then 500 else n)
             (if err_message err = [] then ''Internal server error'' else err_message err) ws"

definition app ::
  "Env \<Rightarrow> 'j Node \<Rightarrow> 'j Express \<Rightarrow> 'w http \<Rightarrow> 'j WebhookRequest \<Rightarrow> 'w \<times> store
     \<Rightarrow> (WebhookResponse \<times> 'w \<times> store) option" where
  "app env node x http req ws =
     (case corsOrigin env (origin req) of
        Inl err \<Rightarrow> errorHandler err ws
      | Inr u \<Rightarrow>
     (case express_json x (req\<lparr>req_body := Undefined, req_body_read := False\<rparr>) of
        Inl err \<Rightarrow> errorHandler err ws
      | Inr req1 \<Rightarrow>
     (case express_urlencoded x req1 of
        Inl err \<Rightarrow> errorHandler err ws
      | Inr req2 \<Rightarrow>
     (case express_raw x req2 of
        Inl err \<Rightarrow> errorHandler err ws
      | Inr req3 \<Rightarrow> postShopify node http req3 ws))))"

section \<open>The pagination as the specification words it\<close>

text \<open>
  Page after page, each requested with the cursor taken from the page before, until a page
  brings no cursor; the pages are kept apart. The first failed request ends the fetch with
  that failure. \<open>n\<close> bounds the number of pages; \<open>None\<close> is a conversation longer than that.
\<close>

fun fetchPages ::
  "nat \<Rightarrow> 'w http \<Rightarrow> ShopifyService \<Rightarrow> string \<Rightarrow> (Response \<Rightarrow> 'r list option) \<Rightarrow> nat \<Rightarrow> string option
     \<Rightarrow> string option \<Rightarrow> 'w \<Rightarrow> ((error + 'r list list) \<times> 'w) option" where
  "fetchPages 0 http svc path field pageLimit st cursor w = None"
| "fetchPages (Suc n) http svc path field pageLimit st cursor w =
     (case client_get http svc path \<lparr>limit = Some pageLimit, status = st, page_info = cursor\<rparr> w of
        (Inl e, w') \<Rightarrow> Some (Inl e, w')
      | (Inr response, w') \<Rightarrow>
          (let page = (case field response of Some xs \<Rightarrow> xs | None \<Rightarrow> []) in
           if str_truthy (nextPageInfo response) then
             (case fetchPages n http svc path field pageLimit st (nextPageInfo response) w' of
                None \<Rightarrow> None
              | Some (Inl e, w'') \<Rightarrow> Some (Inl e, w'')
              | Some (Inr pages, w'') \<Rightarrow> Some (Inr (page # pages), w''))
           else Some (Inr [page], w')))"

text \<open>The collection handed to the caller: the pages in order, or the failure.\<close>

fun collect :: "error + 'r list list \<Rightarrow> error + 'r list" where
  "collect (Inl e) = Inl e"
| "collect (Inr pages) = Inr (concat pages)"

text \<open>
  The link header of a page: links \<^verbatim>\<open><target>; rel="relation"\<close>, separated by a comma and a
  space. The cursor of a link is the value of the \<^verbatim>\<open>page_info\<close> parameter of its target.
  \<open>occurs l s\<close> says that the text \<open>l\<close> is found somewhere in \<open>s\<close>.
\<close>

definition link :: "string \<Rightarrow> string \<Rightarrow> string" where
  "link target rel = ''<'' @ target @ ''>; rel='' @ [CHR 0x22] @ rel @ [CHR 0x22]"

fun occurs :: "string \<Rightarrow> string \<Rightarrow> bool" where
  "occurs l [] = (l = [])"
| "occurs l (c # s) = (take (length l) (c # s) = l \<or> occurs l s)"

section \<open>Well-formed stores\<close>





text \<open>
  What one round of a reconciliation loop does to its table: the row found by its natural
  key is overwritten, and a row is appended when none is found.
\<close>

definition upsert :: "string \<Rightarrow> ('a Data_scheme) \<Rightarrow> nat \<Rightarrow> ('a Data_scheme) Row list \<Rightarrow> ('a Data_scheme) Row list" where
  "upsert t d n rows =
     (case findUnique t (shopifyId d) rows of
        Some ex \<Rightarrow> update (row_id ex) d rows
      | None \<Rightarrow> create n t d rows)"






section \<open>An example shop\<close>

text \<open>
  A small remote shop on which the definitions above can be run. The state of the outside
  world counts the requests served, holds the current email of the first customer, the
  current line items of the order and the access tokens that have been revoked. The
  customers come in two pages: the first carries a link to the next page, the second a
  link to the previous one.
\<close>

record World =
  served :: nat
  emailOfC1 :: "string option"
  linesOfO1 :: "ShopifyLineItem list"
  revoked :: "string list"

definition exCustomer1 :: "string option \<Rightarrow> ShopifyCustomer" where
  "exCustomer1 e = \<lparr>sc_id = ''C1'', sc_email = e, sc_first_name = Some ''Ada'', sc_last_name = None,
     sc_phone = Some [], sc_total_spent = ''12.50'', sc_orders_count = 2,
     sc_created_at = ''2024-01-05T10:00:00Z'', sc_updated_at = []\<rparr>"

definition exCustomer2 :: ShopifyCustomer where
  "exCustomer2 = \<lparr>sc_id = ''C2'', sc_email = None, sc_first_name = None, sc_last_name = None,
     sc_phone = None, sc_total_spent = ''n/a'', sc_orders_count = 0,
     sc_created_at = ''2024-02-01T08:30:00Z'', sc_updated_at = ''2024-02-02T08:30:00Z''\<rparr>"

definition exProduct1 :: ShopifyProduct where
  "exProduct1 = \<lparr>sp_id = ''P1'', sp_title = ''Mug'', sp_handle = Some ''mug'', sp_vendor = None,
     sp_product_type = None, sp_status = Some ''active'',
     sp_variants = [\<lparr>v_price = ''9.99'', v_compare_at_price = None, v_inventory_quantity = Some 4\<rparr>],
     sp_created_at = ''2024-01-01T00:00:00Z'', sp_updated_at = ''2024-01-01T00:00:00Z''\<rparr>"

definition exProduct2 :: ShopifyProduct where
  "exProduct2 = \<lparr>sp_id = ''P2'', sp_title = ''Gift card'', sp_handle = None, sp_vendor = None,
     sp_product_type = None, sp_status = None,
     sp_variants = [\<lparr>v_price = ''abc'', v_compare_at_price = None, v_inventory_quantity = None\<rparr>],
     sp_created_at = [], sp_updated_at = []\<rparr>"

definition exLine :: "string \<Rightarrow> string option \<Rightarrow> ShopifyLineItem" where
  "exLine i p = \<lparr>li_id = i, li_product_id = p, li_title = ''Mug'', li_quantity = 2, li_price = ''9.99'',
     li_total_discount = None, li_sku = None, li_variant_title = None\<rparr>"

definition exOrder :: "string \<Rightarrow> string option \<Rightarrow> ShopifyLineItem list \<Rightarrow> ShopifyOrder" where
  "exOrder i c lis = \<lparr>so_id = i, so_order_number = Some 1001, so_email = None,
     so_financial_status = Some ''paid'', so_fulfillment_status = None, so_total_price = ''19.98'',
     so_subtotal_price = None, so_total_tax = None, so_total_discounts = None, so_currency = None,
     so_customer = c, so_line_items = lis,
     so_created_at = ''2024-03-01T12:00:00Z'', so_updated_at = ''2024-03-01T12:00:00Z''\<rparr>"

definition exOrder1 :: "ShopifyLineItem list \<Rightarrow> ShopifyOrder" where
  "exOrder1 lis = exOrder ''O1'' (Some ''C1'') lis"

definition exLines :: "ShopifyLineItem list" where
  "exLines = [exLine ''L1'' (Some ''P1''), exLine ''L2'' None]"

definition emptyResponse :: Response where
  "emptyResponse = \<lparr>data_customers = None, data_products = None, data_orders = None,
     data_customer = None, data_product = None, data_order = None, headers_link = None\<rparr>"

definition exNextLink :: string where
  "exNextLink = ''<https://ex.myshopify.com/admin/api/2024-01/customers.json?limit=250&page_info=p2>; rel=''
     @ [CHR 0x22] @ ''next'' @ [CHR 0x22]"

definition exPrevLink :: string where
  "exPrevLink = ''<https://ex.myshopify.com/admin/api/2024-01/customers.json?limit=250&page_info=p1>; rel=''
     @ [CHR 0x22] @ ''previous'' @ [CHR 0x22]"

definition exShop :: "World http" where
  "exShop r w =
     (if access_token r \<in> set (revoked w) then Inl (AxiosError ''Request failed with status code 401'')
      else if url r = ''/customers.json'' then
        (if page_info (params r) = Some ''p2''
         then Inr (emptyResponse\<lparr>data_customers := Some [exCustomer2], headers_link := Some exPrevLink\<rparr>)
         else Inr (emptyResponse\<lparr>data_customers := Some [exCustomer1 (emailOfC1 w)],
                                 headers_link := Some exNextLink\<rparr>))
      else if url r = ''/products.json'' then Inr (emptyResponse\<lparr>data_products := Some [exProduct1]\<rparr>)
      else if url r = ''/orders.json'' then Inr (emptyResponse\<lparr>data_orders := Some [exOrder1 (linesOfO1 w)]\<rparr>)
      else if url r = ''/orders/O1.json'' then Inr (emptyResponse\<lparr>data_order := Some (exOrder1 (linesOfO1 w))\<rparr>)
      else Inl (AxiosError ''Request failed with status code 404''),
      w\<lparr>served := served w + 1\<rparr>)"

definition exWorld :: World where
  "exWorld = \<lparr>served = 0, emailOfC1 = Some ''ada@old.example'', linesOfO1 = exLines,
     revoked = [''shpat_B'']\<rparr>"

definition exService :: IngestionService where
  "exService = newIngestionService ''tenant-A'' ''ex.myshopify.com'' ''shpat_A''"

definition emptyStore :: store where
  "emptyStore = \<lparr>tenants = [], customers = [], products = [], orders = [], orderItems = [], nextId = 0\<rparr>"

text \<open>The store after the order of the example shop has been ingested into the empty store.\<close>

definition exOrderStore :: store where
  "exOrderStore =
     \<lparr>tenants = [], customers = [], products = [],
      orders = [\<lparr>row_id = 0, tenantId = ''tenant-A'', data = orderData (exOrder1 exLines) None\<rparr>],
      orderItems = [\<lparr>item_id = 1, item = orderItemData 0 None (exLine ''L1'' (Some ''P1''))\<rparr>,
                    \<lparr>item_id = 2, item = orderItemData 0 None (exLine ''L2'' None)\<rparr>],
      nextId = 3\<rparr>"

text \<open>
  An example platform for the webhook route. Its keyed hash is a stand-in that only
  pairs the key with the text, and its JSON parser knows bodies of the form
  \<^verbatim>\<open>{"id":"..."}\<close> and the empty object. Its body parsers read a body of any length.
\<close>

definition exQuote :: "string \<Rightarrow> string" where
  "exQuote x = [CHR 0x22] @ x @ [CHR 0x22]"

definition exBody :: "string \<Rightarrow> string" where
  "exBody i = ''{'' @ exQuote ''id'' @ '':'' @ exQuote i @ ''}''"

definition exNode :: "string option Node" where
  "exNode =
     \<lparr>hmacSha256Base64 = (\<lambda>k b. ''mac('' @ k @ '','' @ b @ '')''),
      JSON_parse = (\<lambda>b. if b = ''{}'' then Inr None
                         else if take 7 b = ''{'' @ exQuote ''id'' @ '':'' @ [CHR 0x22]
                                 \<and> drop (length b - 2) b = [CHR 0x22] @ ''}''
                         then Inr (Some (take (length b - 9) (drop 7 b)))
                         else Inl (SyntaxError ''Unexpected token'')),
      idToString = (\<lambda>j. case j of None \<Rightarrow> Inl (TypeError ''Cannot read properties of undefined'')
                                  | Some i \<Rightarrow> Inr i),
      objectToString = (\<lambda>j. Inr ''[object Object]'')\<rparr>"

definition exExpress :: "string option Express" where
  "exExpress =
     \<lparr>json_read = (\<lambda>b. case JSON_parse exNode b of
                          Inl e \<Rightarrow> Inl \<lparr>err_status = Some 400, err_message = message e\<rparr>
                        | Inr d \<Rightarrow> Inr d),
      urlencoded_read = (\<lambda>b. Inr None),
      raw_read = (\<lambda>b. Inr b),
      unread = Some None\<rparr>"

definition exEnv :: Env where
  "exEnv = \<lparr>FRONTEND_URL = None, NODE_ENV = Some ''production''\<rparr>"

definition exTenantA :: Tenant where
  "exTenantA = \<lparr>tenant_id = ''tenant-A'', shopDomain = ''ex.myshopify.com'', accessToken = ''shpat_A''\<rparr>"

definition exTenantB :: Tenant where
  "exTenantB = \<lparr>tenant_id = ''tenant-B'', shopDomain = ''gone.myshopify.com'', accessToken = ''shpat_B''\<rparr>"

definition exTenantStore :: store where
  "exTenantStore = emptyStore\<lparr>tenants := [exTenantB, exTenantA]\<rparr>"

definition exWebhook :: "string \<Rightarrow> string \<Rightarrow> string \<Rightarrow> string option WebhookRequest" where
  "exWebhook sg topic b =
     \<lparr>origin = None, content_type = Some ''application/json'',
      x_shopify_hmac_sha256 = Some sg, x_shopify_shop_domain = Some ''ex.myshopify.com'',
      x_shopify_topic = Some topic, rawBody = b, req_body = Undefined, req_body_read = False\<rparr>"



text \<open>The result and the rest of the schedule, without the state.\<close>

definition outcome :: "('a \<times> 'b \<times> 'c) option \<Rightarrow> ('a \<times> 'b) option" where
  "outcome x = (case x of None \<Rightarrow> None | Some (a, b, c) \<Rightarrow> Some (a, b))"

text \<open>The example system with the two tenants, and the state in which the sync of the
  first tenant, whose token is revoked, leaves it.\<close>

definition exSysT :: "World sys" where
  "exSysT = \<lparr>net = exWorld, db = exTenantStore, jobs = [], events = []\<rparr>"

definition exSysFailed :: "World sys" where
  "exSysFailed =
     \<lparr>net = exWorld\<lparr>served := 1\<rparr>, db = exTenantStore,
      jobs = [\<lparr>j_this = newIngestionService ''tenant-B'' ''gone.myshopify.com'' ''shpat_B'', j_entity = Customers,
               j_task = Rejected (AxiosError ''Request failed with status code 401'')\<rparr>,
              \<lparr>j_this = newIngestionService ''tenant-B'' ''gone.myshopify.com'' ''shpat_B'', j_entity = Products,
               j_task = Fetching\<rparr>,
              \<lparr>j_this = newIngestionService ''tenant-B'' ''gone.myshopify.com'' ''shpat_B'', j_entity = Orders,
               j_task = Fetching\<rparr>],
      events = [Begin ''tenant-B'' Customers, Begin ''tenant-B'' Products, Begin ''tenant-B'' Orders,
                End ''tenant-B'' Customers]\<rparr>"

section \<open>Tables under the reconciliation loops\<close>







lemma tenantId_update: "map tenantId (update i d rows) = map tenantId rows"
  by (induction rows) (auto simp: update_def)

lemma length_update: "length (update i d rows) = length rows"
  by (simp add: update_def)








lemma length_upsert:
  "length (upsert t d n rows) = (if findUnique t (shopifyId d) rows = None then Suc (length rows) else length rows)"
  by (auto simp: upsert_def length_update create_def split: option.splits)











































section \<open>Idempotence of the ingestions\<close>





lemma exShop_orders:
  "getOrders exShop (shopifyService exService) 250 ''any'' (exWorld\<lparr>served := 0\<rparr>)
     = Some (Inr [exOrder1 exLines], exWorld\<lparr>served := 1\<rparr>)"
  "getOrders exShop (shopifyService exService) 250 ''any'' (exWorld\<lparr>served := 1\<rparr>)
     = Some (Inr [exOrder1 exLines], exWorld\<lparr>served := 2\<rparr>)"
  by code_simp+



section \<open>Upsert by natural key\<close>








section \<open>Order items\<close>






















lemma exService_tenant: "svc_tenantId exService = ''tenant-A''"
  by (simp add: exService_def newIngestionService_def)

lemma exOrderStore_reached:
  "ingestOrders exShop exService (exWorld\<lparr>served := 0\<rparr>, emptyStore)
     = Some (Inr \<lparr>created = 1, updated = 0\<rparr>, exWorld\<lparr>served := 1\<rparr>, exOrderStore)"
  by (simp add: ingestOrders_def exShop_orders(1) ingestOrder_def Let_def findUnique_def emptyStore_def
        exOrderStore_def exService_tenant noCounts_def resolve_def create_def
        exOrder1_def exOrder_def exLines_def exLine_def createOrderItems_def createOrderItem_def deleteMany_def
        orderData_def orderItemData_def)






section \<open>Weak references\<close>


















section \<open>Numeric fields that do not parse\<close>

lemma parseFloat_letters: "parseFloat ''abc'' = NaN" "parseFloat ''n/a'' = NaN"
  by (simp_all add: parseFloat_def isWhiteSpace_def isDigit_def)

lemma required_totals_zero:
  "parseFloat (sc_total_spent c) = NaN \<Longrightarrow> c_totalSpent (customerData c) = Num 0"
  "parseFloat (so_total_price ord) = NaN \<Longrightarrow> o_totalPrice (orderData ord cid) = Num 0"
  "parseFloat (li_price li) = NaN \<Longrightarrow> i_price (orderItemData oid pid li) = Num 0"
  by (simp_all add: customerData_def orderData_def orderItemData_def num_or_zero_def)

text \<open>
  C5, at a product whose first variant has the price \<^verbatim>\<open>abc\<close>. The customer and order
  totals go through \<^verbatim>\<open>parseFloat(x) || 0\<close> and become zero when the text does not parse
  (the second customer of the example shop, with total spent \<^verbatim>\<open>n/a\<close>, is stored with
  zero). The representative price of a product is \<^verbatim>\<open>parseFloat(firstVariant.price)\<close>
  alone: the round of \<^verbatim>\<open>ingestProducts\<close> for that product hands the row to the store with
  the price \<^verbatim>\<open>NaN\<close>, not zero.
\<close>

theorem product_price_not_zero:
  "c_totalSpent (customerData exCustomer2) = Num 0
   \<and> parseFloat (v_price (hd (sp_variants exProduct2))) = NaN
   \<and> p_price (productData exProduct2) = Some NaN
   \<and> map (p_price \<circ> data) (products (fst (ingestProduct ''tenant-A'' exProduct2 (emptyStore, noCounts)))) = [Some NaN]"
  by (simp add: customerData_def exCustomer2_def parseFloat_letters num_or_zero_def productData_def
      firstVariant_def exProduct2_def ingestProduct_def findUnique_def emptyStore_def create_def Let_def)


section \<open>The link header\<close>

lemma firstDown_Some: "firstDown f lo hi = Some r \<Longrightarrow> \<exists>k. lo \<le> k \<and> k \<le> hi \<and> f k = Some r"
proof (induction hi)
  case 0
  then show ?case by (auto split: if_splits)
next
  case (Suc hi)
  show ?case
  proof (cases "f (Suc hi)")
    case None
    with Suc.prems have "firstDown f lo hi = Some r" by (auto split: if_splits)
    from Suc.IH[OF this] show ?thesis by (meson le_SucI)
  next
    case (Some a)
    with Suc.prems have "a = r" "lo \<le> Suc hi" by (auto split: if_splits)
    with Some show ?thesis by auto
  qed
qed

lemma firstDown_top:
  "lo \<le> k \<Longrightarrow> k \<le> hi \<Longrightarrow> f k = Some r \<Longrightarrow> (\<And>j. k < j \<Longrightarrow> j \<le> hi \<Longrightarrow> f j = None) \<Longrightarrow> firstDown f lo hi = Some r"
proof (induction hi)
  case 0
  then show ?case by simp
next
  case (Suc hi)
  show ?case
  proof (cases "k = Suc hi")
    case True
    then show ?thesis using Suc.prems by simp
  next
    case False
    then have "k \<le> hi" using Suc.prems by simp
    moreover have "f (Suc hi) = None" using Suc.prems(4)[of "Suc hi"] False Suc.prems(2) by simp
    moreover have "\<not> Suc hi < lo" using Suc.prems by simp
    ultimately show ?thesis using Suc.IH[OF Suc.prems(1) _ Suc.prems(3)] Suc.prems(4) by simp
  qed
qed

lemma occurs_take: "take (length l) (drop i s) = l \<Longrightarrow> occurs l s"
proof (induction s arbitrary: i)
  case Nil
  then show ?case by simp
next
  case (Cons c s)
  then show ?case by (cases i) auto
qed

lemma occurs_append: "occurs l s \<Longrightarrow> occurs l (a @ s)"
  by (induction a) auto

lemma occurs_drop: "occurs l (drop k s) \<Longrightarrow> occurs l s"
  using occurs_append[of l "drop k s" "take k s"] by simp

lemma occurs_iff: "occurs l s \<longleftrightarrow> (\<exists>a b. s = a @ l @ b)"
proof
  show "occurs l s \<Longrightarrow> \<exists>a b. s = a @ l @ b"
  proof (induction s)
    case Nil
    then show ?case by simp
  next
    case (Cons c s)
    show ?case
    proof (cases "take (length l) (c # s) = l")
      case True
      then have "c # s = [] @ l @ drop (length l) (c # s)" by (metis append_Nil append_take_drop_id)
      then show ?thesis by blast
    next
      case False
      with Cons obtain a b where "s = a @ l @ b" by auto
      then have "c # s = (c # a) @ l @ b" by simp
      then show ?thesis by blast
    qed
  qed
next
  assume "\<exists>a b. s = a @ l @ b"
  then obtain a b where "s = a @ l @ b" by auto
  then have "take (length l) (drop (length a) s) = l" by simp
  then show "occurs l s" by (rule occurs_take)
qed

lemma matchHere_lit_occurs:
  "matchHere (ps @ [Lit l]) s cap = Some x \<Longrightarrow> occurs l s"
proof (induction ps arbitrary: s cap)
  case Nil
  then have "take (length l) (drop 0 s) = l" by (auto split: if_splits)
  then show ?case by (rule occurs_take)
next
  case (Cons a ps)
  show ?case
  proof (cases a)
    case (Lit m)
    with Cons.prems have "matchHere (ps @ [Lit l]) (drop (length m) s) cap = Some x"
      by (auto split: if_splits)
    from Cons.IH[OF this] show ?thesis by (rule occurs_drop)
  next
    case (StarNot cs)
    with Cons.prems obtain k where "matchHere (ps @ [Lit l]) (drop k s) cap = Some x"
      by (auto dest!: firstDown_Some)
    from Cons.IH[OF this] show ?thesis by (rule occurs_drop)
  next
    case (GroupPlusNot cs)
    with Cons.prems obtain k where "matchHere (ps @ [Lit l]) (drop k s) (take k s) = Some x"
      by (auto dest!: firstDown_Some)
    from Cons.IH[OF this] show ?thesis by (rule occurs_drop)
  qed
qed

lemma regexExec_occurs: "regexExec (ps @ [Lit l]) s = Some x \<Longrightarrow> occurs l s"
proof (induction s)
  case Nil
  then show ?case using matchHere_lit_occurs[of ps l "[]" "[]" x] by simp
next
  case (Cons c s)
  show ?case
  proof (cases "matchHere (ps @ [Lit l]) (c # s) []")
    case None
    with Cons show ?thesis by auto
  next
    case (Some a)
    with Cons.prems have "a = x" by simp
    with Some show ?thesis using matchHere_lit_occurs[of ps l "c # s" "[]" x] by simp
  qed
qed

lemma nextLink_snoc:
  "nextLink = [Lit ''<'', StarNot ''>'', Lit ''page_info='', GroupPlusNot ''&>'', StarNot ''>'']
               @ [Lit (''>; rel='' @ [CHR 0x22] @ ''next'' @ [CHR 0x22])]"
  by (simp add: nextLink_def)

lemma nextPageInfo_no_next:
  "headers_link r = Some h \<Longrightarrow> \<not> occurs (''>; rel='' @ [CHR 0x22] @ ''next'' @ [CHR 0x22]) h \<Longrightarrow> nextPageInfo r = None"
  using regexExec_occurs[of "[Lit ''<'', StarNot ''>'', Lit ''page_info='', GroupPlusNot ''&>'', StarNot ''>'']"
      "''>; rel='' @ [CHR 0x22] @ ''next'' @ [CHR 0x22]" h]
  unfolding nextPageInfo_def nextLink_snoc[symmetric]
  by (cases "regexExec nextLink h") auto

lemma take_le_takeWhile:
  "k \<le> length (takeWhile P s) \<Longrightarrow> x \<in> set (take k s) \<Longrightarrow> P x"
proof -
  assume k: "k \<le> length (takeWhile P s)" and x: "x \<in> set (take k s)"
  have "take k (takeWhile P s @ dropWhile P s) = take k (takeWhile P s)"
    using k by (simp del: takeWhile_dropWhile_id)
  then have "take k s = take k (takeWhile P s)" by simp
  then have "x \<in> set (takeWhile P s)" using x by (metis in_set_takeD)
  then show "P x" by (rule set_takeWhileD[THEN conjunct2])
qed

lemma dropWhile_drop:
  "k \<le> length (takeWhile P s) \<Longrightarrow> dropWhile P (drop k s) = dropWhile P s"
proof -
  assume k: "k \<le> length (takeWhile P s)"
  have "dropWhile P s = dropWhile P (take k s @ drop k s)" by simp
  also have "\<dots> = dropWhile P (drop k s)"
    using take_le_takeWhile[OF k] by (intro dropWhile_append2) auto
  finally show ?thesis by simp
qed

lemma takeWhile_mono_len:
  "(\<And>x. P x \<Longrightarrow> Q x) \<Longrightarrow> length (takeWhile P s) \<le> length (takeWhile Q s)"
  by (induction s) auto

lemma matchHere_stops:
  "matchHere (ps @ [Lit (g # l)]) s cap = Some x \<Longrightarrow> list_all (stopsAt g) ps \<Longrightarrow>
   take (Suc (length l)) (dropWhile (\<lambda>c. c \<noteq> g) s) = g # l"
proof (induction ps arbitrary: s cap)
  case Nil
  then have t: "take (Suc (length l)) s = g # l" by (auto split: if_splits)
  then obtain s' where "s = g # s'" by (cases s) auto
  with t show ?case by simp
next
  case (Cons a ps)
  have all: "list_all (stopsAt g) ps" using Cons.prems(2) by simp
  show ?case
  proof (cases a)
    case (Lit m)
    with Cons.prems have m: "take (length m) s = m" and r: "matchHere (ps @ [Lit (g # l)]) (drop (length m) s) cap = Some x"
      and g: "g \<notin> set m"
      by (auto split: if_splits)
    have "dropWhile (\<lambda>c. c \<noteq> g) s = dropWhile (\<lambda>c. c \<noteq> g) (m @ drop (length m) s)"
      using m by (metis append_take_drop_id)
    also have "\<dots> = dropWhile (\<lambda>c. c \<noteq> g) (drop (length m) s)"
      using g by (intro dropWhile_append2) auto
    finally show ?thesis using Cons.IH[OF r all] by simp
  next
    case (StarNot cs)
    with Cons.prems obtain k where k: "k \<le> length (takeWhile (\<lambda>c. c \<notin> set cs) s)"
        and r: "matchHere (ps @ [Lit (g # l)]) (drop k s) cap = Some x" and g: "g \<in> set cs"
      by (auto dest!: firstDown_Some)
    have "\<And>c. c \<notin> set cs \<Longrightarrow> c \<noteq> g" using g by auto
    from takeWhile_mono_len[of "\<lambda>c. c \<notin> set cs" "\<lambda>c. c \<noteq> g" s, OF this] k
    have "k \<le> length (takeWhile (\<lambda>c. c \<noteq> g) s)" by simp
    from dropWhile_drop[OF this] Cons.IH[OF r all] show ?thesis by simp
  next
    case (GroupPlusNot cs)
    with Cons.prems obtain k where k: "k \<le> length (takeWhile (\<lambda>c. c \<notin> set cs) s)"
        and r: "matchHere (ps @ [Lit (g # l)]) (drop k s) (take k s) = Some x" and g: "g \<in> set cs"
      by (auto dest!: firstDown_Some)
    have "\<And>c. c \<notin> set cs \<Longrightarrow> c \<noteq> g" using g by auto
    from takeWhile_mono_len[of "\<lambda>c. c \<notin> set cs" "\<lambda>c. c \<noteq> g" s, OF this] k
    have "k \<le> length (takeWhile (\<lambda>c. c \<noteq> g) s)" by simp
    from dropWhile_drop[OF this] Cons.IH[OF r all] show ?thesis by simp
  qed
qed

lemma nextLink_stops:
  "matchHere nextLink s [] = Some x \<Longrightarrow>
   take (length (''>; rel='' @ [CHR 0x22] @ ''next'' @ [CHR 0x22])) (dropWhile (\<lambda>c. c \<noteq> CHR ''>'') s)
     = ''>; rel='' @ [CHR 0x22] @ ''next'' @ [CHR 0x22]"
  using matchHere_stops[of "[Lit ''<'', StarNot ''>'', Lit ''page_info='', GroupPlusNot ''&>'', StarNot ''>'']"
      "CHR ''>''" "''; rel='' @ [CHR 0x22] @ ''next'' @ [CHR 0x22]" s "[]" x]
  by (simp add: nextLink_def)

lemma dropWhile_upto:
  "g \<notin> set u \<Longrightarrow> dropWhile (\<lambda>c. c \<noteq> g) (u @ g # s) = g # s"
  by (induction u) auto

lemma takeWhile_upto:
  "\<forall>x\<in>set u. x \<notin> set cs \<Longrightarrow> g \<in> set cs \<Longrightarrow> takeWhile (\<lambda>c. c \<notin> set cs) (u @ g # s) = u"
  by (induction u) auto

lemma takeWhile_before:
  "\<forall>x\<in>set u. x \<notin> set cs \<Longrightarrow> s = [] \<or> hd s \<in> set cs \<Longrightarrow> takeWhile (\<lambda>c. c \<notin> set cs) (u @ s) = u"
  by (induction u) (cases s; auto)+

lemma nextLink_previous:
  "CHR ''>'' \<notin> set u \<Longrightarrow> matchHere nextLink (link u ''previous'' @ s) [] = None"
proof (rule ccontr)
  assume u: "CHR ''>'' \<notin> set u" and "matchHere nextLink (link u ''previous'' @ s) [] \<noteq> None"
  then obtain x where "matchHere nextLink (link u ''previous'' @ s) [] = Some x" by auto
  from nextLink_stops[OF this]
  have "take (length (''>; rel='' @ [CHR 0x22] @ ''next'' @ [CHR 0x22])) (dropWhile (\<lambda>c. c \<noteq> CHR ''>'') (''<'' @ u @ ''>; rel='' @ [CHR 0x22] @ ''previous'' @ [CHR 0x22] @ s))
          = ''>; rel='' @ [CHR 0x22] @ ''next'' @ [CHR 0x22]"
    by (simp add: link_def)
  moreover have "dropWhile (\<lambda>c. c \<noteq> CHR ''>'') (''<'' @ u @ ''>; rel='' @ [CHR 0x22] @ ''previous'' @ [CHR 0x22] @ s)
          = ''>; rel='' @ [CHR 0x22] @ ''previous'' @ [CHR 0x22] @ s"
    using u dropWhile_upto[of "CHR ''>''" "''<'' @ u" "''; rel='' @ [CHR 0x22] @ ''previous'' @ [CHR 0x22] @ s"]
    by simp
  ultimately show False by simp
qed

lemma regexExec_skip:
  "CHR ''<'' \<notin> set a \<Longrightarrow> s \<noteq> [] \<Longrightarrow> regexExec nextLink (a @ s) = regexExec nextLink s"
proof (induction a)
  case Nil
  then show ?case by simp
next
  case (Cons c a)
  then have "matchHere nextLink (c # a @ s) [] = None" by (auto simp: nextLink_def)
  then show ?case using Cons by simp
qed

lemma no_later_gen:
  assumes "\<not> occurs P t" "g \<notin> set P" "length P \<le> j" "j \<le> length P + length t"
  shows "take (length P) (drop j (P @ t @ g # R)) \<noteq> P"
proof
  assume e0: "take (length P) (drop j (P @ t @ g # R)) = P"
  define d where "d = drop (j - length P) t"
  have dr: "drop j (P @ t @ g # R) = d @ g # R" using assms(3,4) by (simp add: d_def)
  have e: "take (length P) (d @ g # R) = P" using e0 by (simp only: dr)
  show False
  proof (cases "length P \<le> length d")
    case True
    then have "take (length P) (drop (j - length P) t) = P" using e by (simp add: d_def)
    from occurs_take[OF this] assms(1) show False by simp
  next
    case False
    then have "g \<in> set (take (length P) (d @ g # R))" by (simp add: take_Cons')
    then have "g \<in> set P" by (simp only: e)
    then show False using assms(2) by simp
  qed
qed

lemma no_later_page_info:
  assumes t: "\<not> occurs ''page_info='' t" and j: "0 < j" "j \<le> length ''page_info='' + length t"
  shows "take (length ''page_info='') (drop j (''page_info='' @ t @ CHR ''>'' # R)) \<noteq> ''page_info=''"
proof (cases "j < 10")
  case True
  then have "j = 1 \<or> j = 2 \<or> j = 3 \<or> j = 4 \<or> j = 5 \<or> j = 6 \<or> j = 7 \<or> j = 8 \<or> j = 9"
    using j by arith
  then show ?thesis by (elim disjE) simp_all
next
  case False
  then have "length ''page_info='' \<le> j" by simp
  from no_later_gen[OF t _ this j(2), of "CHR ''>''" R] show ?thesis by simp
qed

lemma nextLink_next:
  assumes u: "CHR ''>'' \<notin> set u"
      and tok: "tok \<noteq> []" "CHR ''&'' \<notin> set tok" "CHR ''>'' \<notin> set tok"
      and rest: "rest = [] \<or> hd rest = CHR ''&''" "CHR ''>'' \<notin> set rest"
      and once: "\<not> occurs ''page_info='' (tok @ rest)"
  shows "matchHere nextLink (link (u @ ''page_info='' @ tok @ rest) ''next'' @ post) [] = Some tok"
proof -
  define L where "L = ''; rel='' @ [CHR 0x22] @ ''next'' @ [CHR 0x22]"
  define s1 where "s1 = u @ ''page_info='' @ (tok @ rest) @ CHR ''>'' # L @ post"
  define f where "f = (\<lambda>k. matchHere [Lit ''page_info='', GroupPlusNot ''&>'', StarNot ''>'', Lit (CHR ''>'' # L)] (drop k s1) [])"
  have s: "link (u @ ''page_info='' @ tok @ rest) ''next'' @ post = CHR ''<'' # s1"
    by (simp add: link_def s1_def L_def)
  have n1: "takeWhile (\<lambda>c. c \<notin> set ''>'') s1 = u @ ''page_info='' @ tok @ rest"
  proof -
    have a: "\<forall>x\<in>set (u @ ''page_info='' @ tok @ rest). x \<notin> set ''>''" using u tok rest by auto
    have b: "s1 = (u @ ''page_info='' @ tok @ rest) @ CHR ''>'' # (L @ post)" by (simp add: s1_def)
    show ?thesis unfolding b by (rule takeWhile_upto[OF a]) simp
  qed
  have h: "matchHere [StarNot ''>'', Lit (CHR ''>'' # L)] (rest @ CHR ''>'' # L @ post) tok = Some tok"
  proof -
    have "takeWhile (\<lambda>c. c \<notin> set ''>'') (rest @ CHR ''>'' # L @ post) = rest"
      by (rule takeWhile_before) (use rest in auto)
    moreover have "firstDown (\<lambda>k. matchHere [Lit (CHR ''>'' # L)] (drop k (rest @ CHR ''>'' # L @ post)) tok) 0 (length rest) = Some tok"
      by (rule firstDown_top[of 0 "length rest"]) simp_all
    ultimately show ?thesis by simp
  qed
  have g: "matchHere [GroupPlusNot ''&>'', StarNot ''>'', Lit (CHR ''>'' # L)] (tok @ rest @ CHR ''>'' # L @ post) [] = Some tok"
  proof -
    have "takeWhile (\<lambda>c. c \<notin> set ''&>'') (tok @ rest @ CHR ''>'' # L @ post) = tok"
      by (rule takeWhile_before) (use tok rest in \<open>cases rest; auto\<close>)+
    moreover have "firstDown (\<lambda>k. matchHere [StarNot ''>'', Lit (CHR ''>'' # L)] (drop k (tok @ rest @ CHR ''>'' # L @ post))
                      (take k (tok @ rest @ CHR ''>'' # L @ post))) 1 (length tok) = Some tok"
      using tok h by (intro firstDown_top[of 1 "length tok"]) (simp_all add: Suc_le_eq)
    ultimately show ?thesis by simp
  qed
  have fu: "f (length u) = Some tok"
    using g by (simp add: f_def s1_def)
  have fj: "f j = None" if "length u < j" "j \<le> length (u @ ''page_info='' @ tok @ rest)" for j
  proof -
    have "drop j s1 = drop (j - length u) (''page_info='' @ (tok @ rest) @ CHR ''>'' # L @ post)"
      using that by (simp add: s1_def)
    moreover have "take (length ''page_info='') (drop (j - length u) (''page_info='' @ (tok @ rest) @ CHR ''>'' # L @ post)) \<noteq> ''page_info=''"
      using that by (intro no_later_page_info[OF once]) auto
    ultimately show ?thesis unfolding f_def by (simp only: matchHere.simps atom.case if_False)
  qed
  have m: "matchHere nextLink (CHR ''<'' # s1) [] = firstDown f 0 (length (takeWhile (\<lambda>c. c \<notin> set ''>'') s1))"
    by (simp add: nextLink_def f_def L_def)
  have "firstDown f 0 (length (u @ ''page_info='' @ tok @ rest)) = Some tok"
    using fu fj by (intro firstDown_top[of 0 "length u"]) simp_all
  then show ?thesis unfolding s m n1 .
qed


lemma nextPageInfo_next:
  assumes "CHR ''>'' \<notin> set u" "tok \<noteq> []" "CHR ''&'' \<notin> set tok" "CHR ''>'' \<notin> set tok"
      and "rest = [] \<or> hd rest = CHR ''&''" "CHR ''>'' \<notin> set rest"
      and "\<not> occurs ''page_info='' (tok @ rest)"
      and "headers_link r = Some (link (u @ ''page_info='' @ tok @ rest) ''next'' @ post)"
  shows "nextPageInfo r = Some tok"
proof -
  define n where "n = link (u @ ''page_info='' @ tok @ rest) ''next'' @ post"
  obtain s where s: "n = CHR ''<'' # s" by (simp add: n_def link_def)
  have "matchHere nextLink n [] = Some tok"
    using nextLink_next[OF assms(1-7), of post] by (simp only: n_def)
  moreover have "headers_link r = Some n" using assms(8) by (simp only: n_def)
  ultimately show ?thesis by (simp add: nextPageInfo_def s)
qed

lemma nextPageInfo_previous_next:
  assumes "CHR ''>'' \<notin> set u" "tok \<noteq> []" "CHR ''&'' \<notin> set tok" "CHR ''>'' \<notin> set tok"
      and "rest = [] \<or> hd rest = CHR ''&''" "CHR ''>'' \<notin> set rest"
      and "\<not> occurs ''page_info='' (tok @ rest)"
      and "CHR ''<'' \<notin> set u1" "CHR ''>'' \<notin> set u1"
      and "headers_link r = Some (link u1 ''previous'' @ '', '' @ link (u @ ''page_info='' @ tok @ rest) ''next'' @ post)"
  shows "nextPageInfo r = Some tok"
proof -
  define n where "n = link (u @ ''page_info='' @ tok @ rest) ''next'' @ post"
  define a where "a = u1 @ ''>; rel='' @ [CHR 0x22] @ ''previous'' @ [CHR 0x22] @ '', ''"
  obtain s where s: "n = CHR ''<'' # s" by (simp add: n_def link_def)
  have h: "link u1 ''previous'' @ '', '' @ n = CHR ''<'' # a @ n" by (simp add: link_def a_def)
  have 1: "matchHere nextLink (CHR ''<'' # a @ n) [] = None"
    using nextLink_previous[OF assms(9), of "'', '' @ n"] by (simp only: h)
  have "CHR ''<'' \<notin> set a" using assms(8) by (simp add: a_def)
  then have 2: "regexExec nextLink (a @ n) = regexExec nextLink n"
    by (rule regexExec_skip) (simp add: s)
  have "matchHere nextLink n [] = Some tok"
    using nextLink_next[OF assms(1-7), of post] by (simp only: n_def)
  then have 3: "regexExec nextLink n = Some tok" by (simp add: s)
  have 4: "regexExec nextLink (CHR ''<'' # a @ n) = Some tok" using 1 2 3 by simp
  have "headers_link r = Some (link u1 ''previous'' @ '', '' @ n)" using assms(10) by (simp only: n_def)
  then have "headers_link r = Some (CHR ''<'' # a @ n)" by (simp only: h)
  then show ?thesis using 4 by (simp add: nextPageInfo_def)
qed


section \<open>The cursor loop\<close>

lemma getAll_fetchPages:
  "fetchPages n http svc path field pl st cursor w = Some (res, w') \<Longrightarrow> cursor = None \<or> str_truthy cursor \<Longrightarrow>
   getAll http svc path field pl st cursor acc w
     = Some (case res of Inl e \<Rightarrow> Inl e | Inr pages \<Rightarrow> Inr (acc @ concat pages), w')"
proof (induction n arbitrary: cursor acc w res w')
  case 0
  then show ?case by simp
next
  case (Suc n)
  have ps: "(if str_truthy cursor then cursor else None) = cursor"
    using Suc.prems(2) by auto
  obtain r w1 where cg: "client_get http svc path \<lparr>limit = Some pl, status = st, page_info = cursor\<rparr> w = (r, w1)"
    by (cases "client_get http svc path \<lparr>limit = Some pl, status = st, page_info = cursor\<rparr> w")
  show ?case
  proof (cases r)
    case (Inl e)
    then show ?thesis using Suc.prems(1) cg
      by (subst getAll.simps) (auto simp: ps)
  next
    case (Inr response)
    let ?page = "case field response of Some xs \<Rightarrow> xs | None \<Rightarrow> []"
    show ?thesis
    proof (cases "str_truthy (nextPageInfo response)")
      case False
      then show ?thesis using Suc.prems(1) cg Inr
        by (subst getAll.simps) (auto simp: ps Let_def)
    next
      case True
      from Suc.prems(1) cg Inr True
      obtain res1 where rec: "fetchPages n http svc path field pl st (nextPageInfo response) w1 = Some (res1, w')"
          and res: "res = (case res1 of Inl e \<Rightarrow> Inl e | Inr pages \<Rightarrow> Inr (?page # pages))"
        by (auto simp: Let_def split: option.splits sum.splits)
      have "getAll http svc path field pl st (nextPageInfo response) (acc @ ?page) w1
              = Some (case res1 of Inl e \<Rightarrow> Inl e | Inr pages \<Rightarrow> Inr ((acc @ ?page) @ concat pages), w')"
        using Suc.IH[OF rec, of "acc @ ?page"] True by simp
      then show ?thesis using cg Inr True res
        by (subst getAll.simps) (auto simp: ps Let_def split: sum.splits)
    qed
  qed
qed

lemma getAll_collect:
  "fetchPages n http svc path field pl st None w = Some (res, w') \<Longrightarrow>
   getAll http svc path field pl st None [] w = Some (collect res, w')"
  using getAll_fetchPages[of n http svc path field pl st None w res w' "[]"]
  by (cases res) simp_all

lemma getAll_returns_finite:
  assumes "getAll http svc path field pl st cursor acc w = Some rw"
  shows "cursor = None \<or> str_truthy cursor \<longrightarrow>
     (\<exists>n res. fetchPages n http svc path field pl st cursor w = Some (res, snd rw)
        \<and> fst rw = (case res of Inl e \<Rightarrow> Inl e | Inr pages \<Rightarrow> Inr (acc @ concat pages)))"
  using assms
proof (induction http svc path field pl st cursor acc w rw rule: getAll.raw_induct)
  case (1 getAll' http svc path field pl st cursor acc w rw)
  show ?case
  proof
    assume c: "cursor = None \<or> str_truthy cursor"
    have ps: "(if str_truthy cursor then cursor else None) = cursor" using c by auto
    obtain r w1 where cg: "client_get http svc path \<lparr>limit = Some pl, status = st, page_info = cursor\<rparr> w = (r, w1)"
      by (cases "client_get http svc path \<lparr>limit = Some pl, status = st, page_info = cursor\<rparr> w")
    show "\<exists>n res. fetchPages n http svc path field pl st cursor w = Some (res, snd rw)
        \<and> fst rw = (case res of Inl e \<Rightarrow> Inl e | Inr pages \<Rightarrow> Inr (acc @ concat pages))"
    proof (cases r)
      case (Inl e)
      then have "rw = (Inl e, w1)" using 1(2) cg by (simp add: ps)
      then show ?thesis using cg Inl
        by (intro exI[of _ "Suc 0"] exI[of _ "Inl e"]) simp
    next
      case (Inr response)
      let ?page = "case field response of Some xs \<Rightarrow> xs | None \<Rightarrow> []"
      show ?thesis
      proof (cases "str_truthy (nextPageInfo response)")
        case False
        then have "rw = (Inr (acc @ ?page), w1)" using 1(2) cg Inr by (simp add: ps Let_def)
        then show ?thesis using cg Inr False
          by (intro exI[of _ "Suc 0"] exI[of _ "Inr [?page]"]) (simp add: Let_def)
      next
        case True
        then have a: "getAll' http svc path field pl st (nextPageInfo response) (acc @ ?page) w1 = Some rw"
          using 1(2) cg Inr by (simp add: ps Let_def)
        have b: "getAll http svc path field pl st (nextPageInfo response) (acc @ ?page) w1 = Some rw"
          using 1(3) cg Inr True by (subst (asm) getAll.simps) (simp add: ps Let_def)
        from 1(1)[OF a b] True
        obtain n res where rec: "fetchPages n http svc path field pl st (nextPageInfo response) w1 = Some (res, snd rw)"
           and r: "fst rw = (case res of Inl e \<Rightarrow> Inl e | Inr pages \<Rightarrow> Inr ((acc @ ?page) @ concat pages))"
          by blast
        have "fetchPages (Suc n) http svc path field pl st cursor w
                = Some (case res of Inl e \<Rightarrow> Inl e | Inr pages \<Rightarrow> Inr (?page # pages), snd rw)"
          using cg Inr True rec by (simp add: Let_def split: sum.splits)
        moreover have "fst rw = (case (case res of Inl e \<Rightarrow> Inl e | Inr pages \<Rightarrow> Inr (?page # pages)) of
                             Inl e \<Rightarrow> Inl e | Inr pages \<Rightarrow> Inr (acc @ concat pages))"
          using r by (cases res) simp_all
        ultimately show ?thesis by blast
      qed
    qed
  qed
qed (fact assms)

lemma getAll_iff:
  "getAll http svc path field pl st None [] w = Some (r, w')
     \<longleftrightarrow> (\<exists>n res. fetchPages n http svc path field pl st None w = Some (res, w') \<and> r = collect res)"
proof
  assume "getAll http svc path field pl st None [] w = Some (r, w')"
  from getAll_returns_finite[OF this]
  obtain n res where "fetchPages n http svc path field pl st None w = Some (res, w')"
      "r = (case res of Inl e \<Rightarrow> Inl e | Inr pages \<Rightarrow> Inr ([] @ concat pages))"
    by auto
  moreover from this(2) have "r = collect res" by (cases res) simp_all
  ultimately show "\<exists>n res. fetchPages n http svc path field pl st None w = Some (res, w') \<and> r = collect res"
    by blast
next
  assume "\<exists>n res. fetchPages n http svc path field pl st None w = Some (res, w') \<and> r = collect res"
  then obtain n res where "fetchPages n http svc path field pl st None w = Some (res, w')" "r = collect res"
    by auto
  then show "getAll http svc path field pl st None [] w = Some (r, w')"
    using getAll_collect[of n http svc path field pl st w res w'] by simp
qed

text \<open>
  C9. Each collection fetch returns exactly when the conversation with the remote side is
  finite: page after page is requested, the first without a cursor and every further one
  with the cursor that the link header of the page before carried, until a page brings no
  cursor; the result is then the concatenation of the pages in order. A request that fails
  ends the fetch with that failure and with the world as that request left it: no page is
  asked for twice and no collection is returned.

  The cursor of a page is read from its link header. A response without a link header, with
  an empty one, or with one in which no link is closed by \<^verbatim>\<open>>; rel="next"\<close> brings no cursor.
  A header that holds the link to the next page, alone or after a link to the previous
  page, whatever follows it, brings the value of the \<^verbatim>\<open>page_info\<close> parameter of the next
  link: the text \<open>tok\<close>, which is not empty, up to the \<^verbatim>\<open>&\<close> of the following parameter or
  the end of the target, when \<^verbatim>\<open>page_info=\<close> is not found again after it.
\<close>

theorem collection_fetch_follows_cursors:
  "(getCustomers http svc pl w = Some (rc, w')
      \<longleftrightarrow> (\<exists>n res. fetchPages n http svc ''/customers.json'' data_customers pl None None w = Some (res, w')
                    \<and> rc = collect res))
   \<and> (getProducts http svc pl w = Some (rp, w')
      \<longleftrightarrow> (\<exists>n res. fetchPages n http svc ''/products.json'' data_products pl None None w = Some (res, w')
                    \<and> rp = collect res))
   \<and> (getOrders http svc pl st w = Some (ro, w')
      \<longleftrightarrow> (\<exists>n res. fetchPages n http svc ''/orders.json'' data_orders pl (Some st) None w = Some (res, w')
                    \<and> ro = collect res))
   \<and> (headers_link r = None \<or> headers_link r = Some [] \<longrightarrow> nextPageInfo r = None)
   \<and> (headers_link r = Some h \<and> \<not> occurs (''>; rel='' @ [CHR 0x22] @ ''next'' @ [CHR 0x22]) h
        \<longrightarrow> nextPageInfo r = None)
   \<and> (CHR ''>'' \<notin> set u \<and> tok \<noteq> [] \<and> CHR ''&'' \<notin> set tok \<and> CHR ''>'' \<notin> set tok
        \<and> (rest = [] \<or> hd rest = CHR ''&'') \<and> CHR ''>'' \<notin> set rest \<and> \<not> occurs ''page_info='' (tok @ rest)
        \<and> (headers_link r = Some (link (u @ ''page_info='' @ tok @ rest) ''next'' @ post)
           \<or> CHR ''<'' \<notin> set u1 \<and> CHR ''>'' \<notin> set u1
             \<and> headers_link r
                 = Some (link u1 ''previous'' @ '', '' @ link (u @ ''page_info='' @ tok @ rest) ''next'' @ post))
        \<longrightarrow> nextPageInfo r = Some tok \<and> str_truthy (nextPageInfo r))"
proof (intro conjI impI)
  show "getCustomers http svc pl w = Some (rc, w')
      \<longleftrightarrow> (\<exists>n res. fetchPages n http svc ''/customers.json'' data_customers pl None None w = Some (res, w')
                    \<and> rc = collect res)"
    unfolding getCustomers_def getAll_iff by simp
  show "getProducts http svc pl w = Some (rp, w')
      \<longleftrightarrow> (\<exists>n res. fetchPages n http svc ''/products.json'' data_products pl None None w = Some (res, w')
                    \<and> rp = collect res)"
    unfolding getProducts_def getAll_iff by simp
  show "getOrders http svc pl st w = Some (ro, w')
      \<longleftrightarrow> (\<exists>n res. fetchPages n http svc ''/orders.json'' data_orders pl (Some st) None w = Some (res, w')
                    \<and> ro = collect res)"
    unfolding getOrders_def getAll_iff by simp
next
  assume "headers_link r = None \<or> headers_link r = Some []"
  then show "nextPageInfo r = None" by (auto simp: nextPageInfo_def)
next
  assume "headers_link r = Some h \<and> \<not> occurs (''>; rel='' @ [CHR 0x22] @ ''next'' @ [CHR 0x22]) h"
  then show "nextPageInfo r = None" using nextPageInfo_no_next[of r h] by blast
next
  assume a: "CHR ''>'' \<notin> set u \<and> tok \<noteq> [] \<and> CHR ''&'' \<notin> set tok \<and> CHR ''>'' \<notin> set tok
        \<and> (rest = [] \<or> hd rest = CHR ''&'') \<and> CHR ''>'' \<notin> set rest \<and> \<not> occurs ''page_info='' (tok @ rest)
        \<and> (headers_link r = Some (link (u @ ''page_info='' @ tok @ rest) ''next'' @ post)
           \<or> CHR ''<'' \<notin> set u1 \<and> CHR ''>'' \<notin> set u1
             \<and> headers_link r
                 = Some (link u1 ''previous'' @ '', '' @ link (u @ ''page_info='' @ tok @ rest) ''next'' @ post))"
  then have t: "nextPageInfo r = Some tok"
    using nextPageInfo_next[of u tok rest r post] nextPageInfo_previous_next[of u tok rest u1 r post]
    by blast
  then show "nextPageInfo r = Some tok" .
  show "str_truthy (nextPageInfo r)" using t a by (cases tok) simp_all
qed

lemma exShop_pages:
  "fetchPages 2 exShop (shopifyService exService) ''/customers.json'' data_customers 250 None None exWorld
     = Some (Inr [[exCustomer1 (Some ''ada@old.example'')], [exCustomer2]], exWorld\<lparr>served := 2\<rparr>)"
  "fetchPages 2 exShop \<lparr>svc_shopDomain = ''gone.myshopify.com'', svc_accessToken = ''shpat_B''\<rparr>
      ''/products.json'' data_products 250 None None exWorld
     = Some (Inl (AxiosError ''Request failed with status code 401''), exWorld\<lparr>served := 1\<rparr>)"
  "fetchPages 2 exShop (shopifyService exService) ''/orders.json'' data_orders 250 (Some ''any'') None exWorld
     = Some (Inr [[exOrder1 exLines]], exWorld\<lparr>served := 1\<rparr>)"
  by code_simp+

theorem collection_fetch_follows_cursors_witness:
  "getCustomers exShop (shopifyService exService) 250 exWorld
     = Some (Inr [exCustomer1 (Some ''ada@old.example''), exCustomer2], exWorld\<lparr>served := 2\<rparr>)
   \<and> getProducts exShop \<lparr>svc_shopDomain = ''gone.myshopify.com'', svc_accessToken = ''shpat_B''\<rparr> 250 exWorld
     = Some (Inl (AxiosError ''Request failed with status code 401''), exWorld\<lparr>served := 1\<rparr>)
   \<and> getOrders exShop (shopifyService exService) 250 ''any'' exWorld
     = Some (Inr [exOrder1 exLines], exWorld\<lparr>served := 1\<rparr>)
   \<and> nextPageInfo emptyResponse = None
   \<and> nextPageInfo (emptyResponse\<lparr>headers_link := Some exPrevLink\<rparr>) = None
   \<and> nextPageInfo (emptyResponse\<lparr>headers_link := Some exNextLink\<rparr>) = Some ''p2''
   \<and> nextPageInfo (emptyResponse\<lparr>headers_link := Some (exPrevLink @ '', '' @ exNextLink)\<rparr>) = Some ''p2''"
proof -
  have c: "collect (Inr [[exCustomer1 (Some ''ada@old.example'')], [exCustomer2]])
             = Inr [exCustomer1 (Some ''ada@old.example''), exCustomer2]"
          "collect (Inr [[exOrder1 exLines]]) = Inr [exOrder1 exLines]"
    by simp_all
  have 1: "getCustomers exShop (shopifyService exService) 250 exWorld
     = Some (Inr [exCustomer1 (Some ''ada@old.example''), exCustomer2], exWorld\<lparr>served := 2\<rparr>)"
    using collection_fetch_follows_cursors[THEN conjunct1, THEN iffD2, OF exI, OF exI, OF conjI,
        OF exShop_pages(1) c(1)[symmetric]] .
  have 2: "getProducts exShop \<lparr>svc_shopDomain = ''gone.myshopify.com'', svc_accessToken = ''shpat_B''\<rparr> 250 exWorld
     = Some (Inl (AxiosError ''Request failed with status code 401''), exWorld\<lparr>served := 1\<rparr>)"
    using collection_fetch_follows_cursors[THEN conjunct2, THEN conjunct1, THEN iffD2, OF exI, OF exI, OF conjI,
        OF exShop_pages(2) collect.simps(1)[symmetric]] .
  have 3: "getOrders exShop (shopifyService exService) 250 ''any'' exWorld
     = Some (Inr [exOrder1 exLines], exWorld\<lparr>served := 1\<rparr>)"
    using collection_fetch_follows_cursors[THEN conjunct2, THEN conjunct2, THEN conjunct1, THEN iffD2, OF exI, OF exI, OF conjI,
        OF exShop_pages(3) c(2)[symmetric]] .
  have 4: "nextPageInfo emptyResponse = None"
    using collection_fetch_follows_cursors[where r = emptyResponse,
        THEN conjunct2, THEN conjunct2, THEN conjunct2, THEN conjunct1]
    by (simp add: emptyResponse_def)
  have 5: "nextPageInfo (emptyResponse\<lparr>headers_link := Some exPrevLink\<rparr>) = None"
    using collection_fetch_follows_cursors[where r = "emptyResponse\<lparr>headers_link := Some exPrevLink\<rparr>"
        and h = exPrevLink,
        THEN conjunct2, THEN conjunct2, THEN conjunct2, THEN conjunct2, THEN conjunct1]
    by (simp add: exPrevLink_def)
  have 6: "nextPageInfo (emptyResponse\<lparr>headers_link := Some exNextLink\<rparr>) = Some ''p2''"
    using collection_fetch_follows_cursors[where r = "emptyResponse\<lparr>headers_link := Some exNextLink\<rparr>"
        and u = "''https://ex.myshopify.com/admin/api/2024-01/customers.json?limit=250&''"
        and tok = "''p2''" and rest = "[]" and post = "[]",
        THEN conjunct2, THEN conjunct2, THEN conjunct2, THEN conjunct2, THEN conjunct2]
    by (simp add: exNextLink_def link_def)
  have 7: "nextPageInfo (emptyResponse\<lparr>headers_link := Some (exPrevLink @ '', '' @ exNextLink)\<rparr>) = Some ''p2''"
    using collection_fetch_follows_cursors[
        where r = "emptyResponse\<lparr>headers_link := Some (exPrevLink @ '', '' @ exNextLink)\<rparr>"
        and u = "''https://ex.myshopify.com/admin/api/2024-01/customers.json?limit=250&''"
        and tok = "''p2''" and rest = "[]" and post = "[]"
        and ?u1.0 = "''https://ex.myshopify.com/admin/api/2024-01/customers.json?limit=250&page_info=p1''",
        THEN conjunct2, THEN conjunct2, THEN conjunct2, THEN conjunct2, THEN conjunct2]
    by (simp add: exNextLink_def exPrevLink_def link_def)
  show ?thesis using 1 2 3 4 5 6 7 by simp
qed



section \<open>Single-record lookups\<close>


lemma getOrders_first_page_fails:
  "client_get http svc ''/orders.json'' \<lparr>limit = Some pl, status = Some st, page_info = None\<rparr> w = (Inl e, w')
     \<Longrightarrow> getOrders http svc pl st w = Some (Inl e, w')"
  unfolding getOrders_def by (subst getAll.simps) simp

text \<open>
  C10. The three single-record lookups have no failing outcome: a request that fails gives
  null, as does a response without the record, and the world is left as the one request
  left it; a response with the record gives the record. The caller sees only the null. A
  collection fetch, in contrast, hands the failure of its request on. The handler of an
  order webhook that gets null from the lookup of its order returns without any ingestion:
  the store is untouched and no further request is made.
\<close>

theorem single_lookup_null:
  "(client_get http svc (''/customers/'' @ i @ ''.json'') noParams w = (Inl e, w')
      \<longrightarrow> getCustomer http svc i w = (None, w'))
   \<and> (client_get http svc (''/products/'' @ i @ ''.json'') noParams w = (Inl e, w')
      \<longrightarrow> getProduct http svc i w = (None, w'))
   \<and> (client_get http svc (''/orders/'' @ i @ ''.json'') noParams w = (Inl e, w')
      \<longrightarrow> getOrder http svc i w = (None, w'))
   \<and> (client_get http svc (''/customers/'' @ i @ ''.json'') noParams w = (Inr r, w')
      \<longrightarrow> getCustomer http svc i w = (data_customer r, w'))
   \<and> (client_get http svc (''/products/'' @ i @ ''.json'') noParams w = (Inr r, w')
      \<longrightarrow> getProduct http svc i w = (data_product r, w'))
   \<and> (client_get http svc (''/orders/'' @ i @ ''.json'') noParams w = (Inr r, w')
      \<longrightarrow> getOrder http svc i w = (data_order r, w'))
   \<and> (client_get http svc ''/orders.json'' \<lparr>limit = Some pl, status = Some st, page_info = None\<rparr> w = (Inl e, w')
      \<longrightarrow> getOrders http svc pl st w = Some (Inl e, w'))
   \<and> (idToString node payload = Inr i
       \<and> getOrder http (shopifyService (newIngestionService tid domain tok)) i w = (None, w')
      \<longrightarrow> handleOrderWebhook node http tid domain tok payload (w, s) = Some (w', s))"
  by (simp add: getCustomer_def getProduct_def getOrder_def getOrders_first_page_fails
      handleOrderWebhook_def Let_def)

lemma exShop_unknown_order:
  "client_get exShop (shopifyService (newIngestionService ''tenant-A'' ''ex.myshopify.com'' ''shpat_A''))
      (''/orders/'' @ ''O9'' @ ''.json'') noParams exWorld
     = (Inl (AxiosError ''Request failed with status code 404''), exWorld\<lparr>served := 1\<rparr>)"
  "client_get exShop (shopifyService (newIngestionService ''tenant-A'' ''ex.myshopify.com'' ''shpat_A''))
      ''/orders.json'' \<lparr>limit = Some 250, status = Some ''any'', page_info = None\<rparr> (exWorld\<lparr>revoked := [''shpat_A'']\<rparr>)
     = (Inl (AxiosError ''Request failed with status code 401''), exWorld\<lparr>revoked := [''shpat_A''], served := 1\<rparr>)"
  by code_simp+

theorem single_lookup_null_witness:
  "getOrder exShop (shopifyService (newIngestionService ''tenant-A'' ''ex.myshopify.com'' ''shpat_A'')) ''O9'' exWorld
     = (None, exWorld\<lparr>served := 1\<rparr>)
   \<and> getOrders exShop (shopifyService (newIngestionService ''tenant-A'' ''ex.myshopify.com'' ''shpat_A'')) 250 ''any''
        (exWorld\<lparr>revoked := [''shpat_A'']\<rparr>)
     = Some (Inl (AxiosError ''Request failed with status code 401''), exWorld\<lparr>revoked := [''shpat_A''], served := 1\<rparr>)
   \<and> handleOrderWebhook exNode exShop ''tenant-A'' ''ex.myshopify.com'' ''shpat_A'' (Some ''O9'') (exWorld, exTenantStore)
     = Some (exWorld\<lparr>served := 1\<rparr>, exTenantStore)"
proof -
  note T = single_lookup_null[where http = exShop and w = exWorld and i = "''O9''"
      and svc = "shopifyService (newIngestionService ''tenant-A'' ''ex.myshopify.com'' ''shpat_A'')"
      and w' = "exWorld\<lparr>served := 1\<rparr>" and node = exNode and payload = "Some ''O9''"
      and tid = "''tenant-A''" and domain = "''ex.myshopify.com''" and tok = "''shpat_A''" and s = exTenantStore
      and e = "AxiosError ''Request failed with status code 404''" and r = emptyResponse
      and pl = 250 and st = "''any''"]
  note U = single_lookup_null[where http = exShop and w = "exWorld\<lparr>revoked := [''shpat_A'']\<rparr>"
      and svc = "shopifyService (newIngestionService ''tenant-A'' ''ex.myshopify.com'' ''shpat_A'')"
      and w' = "exWorld\<lparr>revoked := [''shpat_A''], served := 1\<rparr>" and pl = 250 and st = "''any''"
      and e = "AxiosError ''Request failed with status code 401''" and r = emptyResponse and i = "''O9''"
      and node = exNode and payload = "Some ''O9''"
      and tid = "''tenant-A''" and domain = "''ex.myshopify.com''" and tok = "''shpat_A''" and s = exTenantStore]
  have 1: "getOrder exShop (shopifyService (newIngestionService ''tenant-A'' ''ex.myshopify.com'' ''shpat_A'')) ''O9'' exWorld
     = (None, exWorld\<lparr>served := 1\<rparr>)"
    using T exShop_unknown_order(1) by simp
  have 2: "getOrders exShop (shopifyService (newIngestionService ''tenant-A'' ''ex.myshopify.com'' ''shpat_A'')) 250 ''any''
        (exWorld\<lparr>revoked := [''shpat_A'']\<rparr>)
     = Some (Inl (AxiosError ''Request failed with status code 401''), exWorld\<lparr>revoked := [''shpat_A''], served := 1\<rparr>)"
    using U exShop_unknown_order(2) by simp
  have "idToString exNode (Some ''O9'') = Inr ''O9''" by (simp add: exNode_def)
  then have 3: "handleOrderWebhook exNode exShop ''tenant-A'' ''ex.myshopify.com'' ''shpat_A'' (Some ''O9'') (exWorld, exTenantStore)
     = Some (exWorld\<lparr>served := 1\<rparr>, exTenantStore)"
    using T 1 by simp
  show ?thesis using 1 2 3 by simp
qed



section \<open>Signed webhooks\<close>

text \<open>
  The route by itself, given the Buffer of the raw body: the keyed hash of the raw body is
  compared with the signature, a difference is answered with 401 and nothing else happens,
  and a signed \<^verbatim>\<open>orders/updated\<close> request whose order the single lookup finds is answered
  with 200 after one run of \<^verbatim>\<open>ingestOrders\<close>.
\<close>

lemma postShopify_raw_body:
  assumes "x_shopify_hmac_sha256 req = Some sg" "sg \<noteq> []"
      and "x_shopify_shop_domain req = Some domain" "domain \<noteq> []"
      and "x_shopify_topic req = Some topic" "topic \<noteq> []"
      and "findTenant domain (tenants s) = Some tenant"
      and "req_body req = Buffer b"
  shows "hmacSha256Base64 node (accessToken tenant) b \<noteq> sg \<Longrightarrow>
            postShopify node http req (w, s)
              = Some (\<lparr>res_status = 401, res_json = ''Invalid webhook signature''\<rparr>, w, s)"
    and "hmacSha256Base64 node (accessToken tenant) b = sg \<Longrightarrow> topic = ''orders/updated''
            \<Longrightarrow> JSON_parse node b = Inr d \<Longrightarrow> idToString node d = Inr i
            \<Longrightarrow> getOrder http (shopifyService (newIngestionService (tenant_id tenant) (shopDomain tenant) (accessToken tenant))) i w
                 = (Some ord, w1)
            \<Longrightarrow> ingestOrders http (newIngestionService (tenant_id tenant) (shopDomain tenant) (accessToken tenant)) (w1, s)
                 = Some (r, w2, s2)
            \<Longrightarrow> postShopify node http req (w, s) = Some (\<lparr>res_status = 200, res_json = ''received''\<rparr>, w2, s2)"
  using assms
  by (simp_all add: postShopify_def verifyShopifyWebhook_def respond_def handleOrderWebhook_def Let_def
      bodyToString_def)

text \<open>
  In the application the Buffer never reaches the route: whatever the request, the parser of
  the route finds the body read by \<^verbatim>\<open>express.json()\<close>, or a content type that is not its
  own.
\<close>

lemma raw_body_never_read:
  assumes "express_json x (req\<lparr>req_body := Undefined, req_body_read := False\<rparr>) = Inr req1"
      and "express_urlencoded x req1 = Inr req2"
      and "express_raw x req2 = Inr req3"
  shows "req_body req3 \<noteq> Buffer b"
  using assms
  by (auto simp: express_json_def express_urlencoded_def express_raw_def bodyParser_def Let_def
      split: if_splits sum.splits option.splits)

lemma app_json:
  assumes "corsOrigin env (origin req) = Inr ()"
      and "content_type req = Some ''application/json''"
      and "json_read x (rawBody req) = Inr d"
  shows "app env node x http req ws = postShopify node http (req\<lparr>req_body := Parsed d, req_body_read := True\<rparr>) ws"
  using assms
  by (simp add: app_def express_json_def express_urlencoded_def express_raw_def bodyParser_def Let_def)

text \<open>
  C7, at the requests that Shopify sends: a JSON object as the body, with the content type
  \<^verbatim>\<open>application/json\<close>. \<^verbatim>\<open>express.json()\<close>, installed before the router, has read and parsed
  the body when the request reaches the route, so \<^verbatim>\<open>req.body.toString()\<close> is the text
  \<^verbatim>\<open>[object Object]\<close> and the keyed hash is taken of that text, not of the raw body. A
  request for a known shop that carries the keyed hash of its raw body as its signature is
  answered with 401, whatever its topic, and neither the store nor the world has changed:
  no order is synchronised. No signature makes the application accept such a request: the
  one signature that passes the comparison leads to \<^verbatim>\<open>JSON.parse\<close> of \<^verbatim>\<open>[object Object]\<close>,
  which fails, and to the answer 500.
\<close>

theorem signed_webhook_rejected:
  assumes "corsOrigin env (origin req) = Inr ()"
      and "content_type req = Some ''application/json''"
      and "json_read x (rawBody req) = Inr d"
      and "objectToString node d = Inr ''[object Object]''"
      and "x_shopify_hmac_sha256 req = Some sg" "sg \<noteq> []"
      and "x_shopify_shop_domain req = Some domain" "domain \<noteq> []"
      and "x_shopify_topic req = Some topic" "topic \<noteq> []"
      and "findTenant domain (tenants s) = Some tenant"
  shows "(sg = hmacSha256Base64 node (accessToken tenant) (rawBody req)
          \<and> hmacSha256Base64 node (accessToken tenant) ''[object Object]''
              \<noteq> hmacSha256Base64 node (accessToken tenant) (rawBody req)
          \<longrightarrow> app env node x http req (w, s)
                = Some (\<lparr>res_status = 401, res_json = ''Invalid webhook signature''\<rparr>, w, s))
       \<and> (JSON_parse node ''[object Object]'' = Inl e
          \<longrightarrow> app env node x http req (w, s)
                = Some (\<lparr>res_status = 401, res_json = ''Invalid webhook signature''\<rparr>, w, s)
              \<or> app env node x http req (w, s)
                = Some (\<lparr>res_status = 500, res_json = ''Webhook processing failed''\<rparr>, w, s))"
proof -
  have a: "app env node x http req (w, s)
             = postShopify node http (req\<lparr>req_body := Parsed d, req_body_read := True\<rparr>) (w, s)"
    using assms(1-3) by (rule app_json)
  show ?thesis
    unfolding a using assms(4-11)
    by (simp add: postShopify_def verifyShopifyWebhook_def respond_def bodyToString_def Let_def)
qed

lemma exTenant_found: "findTenant ''ex.myshopify.com'' (tenants exTenantStore) = Some exTenantA"
  by (simp add: findTenant_def exTenantStore_def exTenantA_def exTenantB_def emptyStore_def)

lemma exWebhook_fields:
  "origin (exWebhook sg topic b) = None"
  "content_type (exWebhook sg topic b) = Some ''application/json''"
  "x_shopify_hmac_sha256 (exWebhook sg topic b) = Some sg"
  "x_shopify_shop_domain (exWebhook sg topic b) = Some ''ex.myshopify.com''"
  "x_shopify_topic (exWebhook sg topic b) = Some topic"
  "rawBody (exWebhook sg topic b) = b"
  by (simp_all add: exWebhook_def)

lemma exNode_facts:
  "hmacSha256Base64 exNode k b = ''mac('' @ k @ '','' @ b @ '')''"
  "objectToString exNode j = Inr ''[object Object]''"
  "JSON_parse exNode ''[object Object]'' = Inl (SyntaxError ''Unexpected token'')"
  by (simp_all add: exNode_def exQuote_def)

lemma exExpress_read: "json_read exExpress (exBody ''O1'') = Inr (Some ''O1'')"
  by (simp add: exExpress_def exNode_def exBody_def exQuote_def)

lemma exTenantA_token: "accessToken exTenantA = ''shpat_A''"
  by (simp add: exTenantA_def)

theorem signed_webhook_rejected_witness:
  "x_shopify_hmac_sha256 (exWebhook (hmacSha256Base64 exNode ''shpat_A'' (exBody ''O1'')) ''orders/updated'' (exBody ''O1''))
     = Some (hmacSha256Base64 exNode (accessToken exTenantA)
               (rawBody (exWebhook (hmacSha256Base64 exNode ''shpat_A'' (exBody ''O1'')) ''orders/updated'' (exBody ''O1''))))
   \<and> findTenant ''ex.myshopify.com'' (tenants exTenantStore) = Some exTenantA
   \<and> app exEnv exNode exExpress exShop
        (exWebhook (hmacSha256Base64 exNode ''shpat_A'' (exBody ''O1'')) ''orders/updated'' (exBody ''O1''))
        (exWorld, exTenantStore)
     = Some (\<lparr>res_status = 401, res_json = ''Invalid webhook signature''\<rparr>, exWorld, exTenantStore)"
proof -
  let ?good = "hmacSha256Base64 exNode ''shpat_A'' (exBody ''O1'')"
  have ne: "?good \<noteq> []" "''ex.myshopify.com'' \<noteq> []" "''orders/updated'' \<noteq> []"
    by (simp_all add: exNode_facts)
  have c: "corsOrigin exEnv (origin (exWebhook ?good ''orders/updated'' (exBody ''O1''))) = Inr ()"
    by (simp add: corsOrigin_def exWebhook_fields)
  have r: "json_read exExpress (rawBody (exWebhook ?good ''orders/updated'' (exBody ''O1''))) = Inr (Some ''O1'')"
    by (simp add: exWebhook_fields exExpress_read)
  note A = signed_webhook_rejected[
      of exEnv "exWebhook ?good ''orders/updated'' (exBody ''O1'')" exExpress "Some ''O1''" exNode ?good
         "''ex.myshopify.com''" "''orders/updated''" exTenantStore exTenantA exShop exWorld,
      OF c exWebhook_fields(2) r exNode_facts(2) exWebhook_fields(3) ne(1) exWebhook_fields(4) ne(2)
         exWebhook_fields(5) ne(3) exTenant_found,
      THEN conjunct1]
  have "app exEnv exNode exExpress exShop (exWebhook ?good ''orders/updated'' (exBody ''O1'')) (exWorld, exTenantStore)
     = Some (\<lparr>res_status = 401, res_json = ''Invalid webhook signature''\<rparr>, exWorld, exTenantStore)"
    using A by (simp add: exWebhook_fields exTenantA_token exNode_facts exBody_def exQuote_def)
  then show ?thesis using exTenant_found by (simp add: exWebhook_fields exTenantA_token)
qed



section \<open>The three ingestions at once\<close>

text \<open>A job whose turns are taken with nothing in between is the ingestion itself.\<close>


lemma turns_customers:
  "turns (Suc (length xs)) http this k (ReconcilingCustomers xs n) (w, s)
     = Some (Fulfilled (snd (foldl (\<lambda>sc c. ingestCustomer (svc_tenantId this) c sc) (s, n) xs)), w,
             fst (foldl (\<lambda>sc c. ingestCustomer (svc_tenantId this) c sc) (s, n) xs))"
proof (induction xs arbitrary: s n)
  case Nil
  then show ?case by simp
next
  case (Cons x xs)
  show ?case
    using Cons.IH[where s = "fst (ingestCustomer (svc_tenantId this) x (s, n))"
                    and n = "snd (ingestCustomer (svc_tenantId this) x (s, n))"]
    by (simp add: Let_def)
qed

lemma turns_products:
  "turns (Suc (length xs)) http this k (ReconcilingProducts xs n) (w, s)
     = Some (Fulfilled (snd (foldl (\<lambda>sc c. ingestProduct (svc_tenantId this) c sc) (s, n) xs)), w,
             fst (foldl (\<lambda>sc c. ingestProduct (svc_tenantId this) c sc) (s, n) xs))"
proof (induction xs arbitrary: s n)
  case Nil
  then show ?case by simp
next
  case (Cons x xs)
  show ?case
    using Cons.IH[where s = "fst (ingestProduct (svc_tenantId this) x (s, n))"
                    and n = "snd (ingestProduct (svc_tenantId this) x (s, n))"]
    by (simp add: Let_def)
qed

lemma turns_orders:
  "turns (Suc (length xs)) http this k (ReconcilingOrders xs n) (w, s)
     = Some (Fulfilled (snd (foldl (\<lambda>sc c. ingestOrder (svc_tenantId this) c sc) (s, n) xs)), w,
             fst (foldl (\<lambda>sc c. ingestOrder (svc_tenantId this) c sc) (s, n) xs))"
proof (induction xs arbitrary: s n)
  case Nil
  then show ?case by simp
next
  case (Cons x xs)
  show ?case
    using Cons.IH[where s = "fst (ingestOrder (svc_tenantId this) x (s, n))"
                    and n = "snd (ingestOrder (svc_tenantId this) x (s, n))"]
    by (simp add: Let_def)
qed

lemma job_alone_is_ingestion:
  "ingestCustomers http this (w, s) = Some (r, w', s') \<Longrightarrow>
     \<exists>m. turns m http this Customers Fetching (w, s) = Some (settledAs r, w', s')"
  "ingestProducts http this (w, s) = Some (r, w', s') \<Longrightarrow>
     \<exists>m. turns m http this Products Fetching (w, s) = Some (settledAs r, w', s')"
  "ingestOrders http this (w, s) = Some (r, w', s') \<Longrightarrow>
     \<exists>m. turns m http this Orders Fetching (w, s) = Some (settledAs r, w', s')"
proof -
  show "ingestCustomers http this (w, s) = Some (r, w', s') \<Longrightarrow>
     \<exists>m. turns m http this Customers Fetching (w, s) = Some (settledAs r, w', s')"
  proof -
    assume a: "ingestCustomers http this (w, s) = Some (r, w', s')"
    then obtain f where f: "getCustomers http (shopifyService this) 250 w = Some (f, w')"
      by (auto simp: ingestCustomers_def Let_def split: option.splits sum.splits)
    show ?thesis
    proof (cases f)
      case (Inl e)
      then have "turns (Suc 0) http this Customers Fetching (w, s) = Some (settledAs r, w', s')"
        using a f by (auto simp: ingestCustomers_def)
      then show ?thesis by blast
    next
      case (Inr xs)
      then have "turns (Suc (Suc (length xs))) http this Customers Fetching (w, s) = Some (settledAs r, w', s')"
        using a f turns_customers[of xs http this Customers noCounts w' s]
        by (auto simp: ingestCustomers_def Let_def)
      then show ?thesis by blast
    qed
  qed
  show "ingestProducts http this (w, s) = Some (r, w', s') \<Longrightarrow>
     \<exists>m. turns m http this Products Fetching (w, s) = Some (settledAs r, w', s')"
  proof -
    assume a: "ingestProducts http this (w, s) = Some (r, w', s')"
    then obtain f where f: "getProducts http (shopifyService this) 250 w = Some (f, w')"
      by (auto simp: ingestProducts_def Let_def split: option.splits sum.splits)
    show ?thesis
    proof (cases f)
      case (Inl e)
      then have "turns (Suc 0) http this Products Fetching (w, s) = Some (settledAs r, w', s')"
        using a f by (auto simp: ingestProducts_def)
      then show ?thesis by blast
    next
      case (Inr xs)
      then have "turns (Suc (Suc (length xs))) http this Products Fetching (w, s) = Some (settledAs r, w', s')"
        using a f turns_products[of xs http this Products noCounts w' s]
        by (auto simp: ingestProducts_def Let_def)
      then show ?thesis by blast
    qed
  qed
  show "ingestOrders http this (w, s) = Some (r, w', s') \<Longrightarrow>
     \<exists>m. turns m http this Orders Fetching (w, s) = Some (settledAs r, w', s')"
  proof -
    assume a: "ingestOrders http this (w, s) = Some (r, w', s')"
    then obtain f where f: "getOrders http (shopifyService this) 250 ''any'' w = Some (f, w')"
      by (auto simp: ingestOrders_def Let_def split: option.splits sum.splits)
    show ?thesis
    proof (cases f)
      case (Inl e)
      then have "turns (Suc 0) http this Orders Fetching (w, s) = Some (settledAs r, w', s')"
        using a f by (auto simp: ingestOrders_def)
      then show ?thesis by blast
    next
      case (Inr xs)
      then have "turns (Suc (Suc (length xs))) http this Orders Fetching (w, s) = Some (settledAs r, w', s')"
        using a f turns_orders[of xs http this Orders noCounts w' s]
        by (auto simp: ingestOrders_def Let_def)
      then show ?thesis by blast
    qed
  qed
qed



lemma stepTask_settled:
  "settledTask t \<Longrightarrow> stepTask http this k t (w, s) = Some (t, w, s)"
  by (cases t) simp_all





lemma outcome_Some: "outcome x = Some (a, b) \<Longrightarrow> \<exists>c. x = Some (a, b, c)"
  by (auto simp: outcome_def split: option.splits)





section \<open>The scheduled cycle\<close>

lemma syncTenants_append:
  "syncTenants http (pre @ post) sched \<sigma> =
     (case syncTenants http pre sched \<sigma> of
        None \<Rightarrow> None
      | Some (l1, sched1, \<sigma>1) \<Rightarrow>
          (case syncTenants http post sched1 \<sigma>1 of
             None \<Rightarrow> None
           | Some (l2, sched2, \<sigma>2) \<Rightarrow> Some (l1 @ l2, sched2, \<sigma>2)))"
  by (induction pre arbitrary: sched \<sigma>) (auto split: option.splits)

lemma syncTenants_log:
  "syncTenants http ts sched \<sigma> = Some (l, sched', \<sigma>') \<Longrightarrow> map logDomain l = map shopDomain ts"
  by (induction ts arbitrary: sched \<sigma> l) (auto split: option.splits sum.splits)

text \<open>
  C8. In a scheduled cycle over the tenants \<open>pre\<close>, \<open>a\<close>, \<open>post\<close>: when the sync of
  \<open>a\<close> throws, the cycle reports that failure for \<open>a\<close> alone and goes on with the
  tenants after it, from the state in which the failed sync left the system. The report
  of the cycle is the report for \<open>pre\<close>, the failure of \<open>a\<close>, and the report for
  \<open>post\<close>, which has one entry for every tenant of \<open>post\<close>.
\<close>

theorem tenant_failure_isolated:
  assumes "tenants (db \<sigma>) = pre @ a # post"
      and "syncTenants http pre sched \<sigma> = Some (l1, sched1, \<sigma>1)"
      and "ingestAll http (newIngestionService (tenant_id a) (shopDomain a) (accessToken a)) sched1 \<sigma>1
             = Some (Inl e, sched2, \<sigma>2)"
      and "syncTenants http post sched2 \<sigma>2 = Some (l2, sched3, \<sigma>3)"
  shows "scheduledSync http sched \<sigma> = Some (l1 @ SyncFailed (shopDomain a) (message e) # l2, sched3, \<sigma>3)
         \<and> map logDomain l2 = map shopDomain post"
  using assms syncTenants_log[OF assms(4)]
  by (simp add: scheduledSync_def syncTenants_append)


lemma exSysT_first:
  "ingestAll exShop (newIngestionService (tenant_id exTenantB) (shopDomain exTenantB) (accessToken exTenantB))
      [0, 3, 3, 3, 3, 4, 4, 4, 5, 5, 5] exSysT
     = Some (Inl (AxiosError ''Request failed with status code 401''), [3, 3, 3, 3, 4, 4, 4, 5, 5, 5], exSysFailed)"
  by code_simp

lemma exSysT_second:
  "outcome (syncTenants exShop [exTenantA] [3, 3, 3, 3, 4, 4, 4, 5, 5, 5] exSysFailed)
     = Some ([SyncCompleted ''ex.myshopify.com''
               \<lparr>r_customers = \<lparr>created = 2, updated = 0\<rparr>, r_products = \<lparr>created = 1, updated = 0\<rparr>,
                r_orders = \<lparr>created = 1, updated = 0\<rparr>\<rparr>], [])"
  by code_simp

theorem tenant_failure_isolated_witness:
  "\<exists>\<sigma>3. scheduledSync exShop [0, 3, 3, 3, 3, 4, 4, 4, 5, 5, 5] exSysT
          = Some ([SyncFailed ''gone.myshopify.com'' ''Request failed with status code 401'',
                   SyncCompleted ''ex.myshopify.com''
                     \<lparr>r_customers = \<lparr>created = 2, updated = 0\<rparr>, r_products = \<lparr>created = 1, updated = 0\<rparr>,
                      r_orders = \<lparr>created = 1, updated = 0\<rparr>\<rparr>], [], \<sigma>3)"
proof -
  from outcome_Some[OF exSysT_second] obtain \<sigma>3 where
    r: "syncTenants exShop [exTenantA] [3, 3, 3, 3, 4, 4, 4, 5, 5, 5] exSysFailed
          = Some ([SyncCompleted ''ex.myshopify.com''
               \<lparr>r_customers = \<lparr>created = 2, updated = 0\<rparr>, r_products = \<lparr>created = 1, updated = 0\<rparr>,
                r_orders = \<lparr>created = 1, updated = 0\<rparr>\<rparr>], [], \<sigma>3)"
    by blast
  have t: "tenants (db exSysT) = [] @ exTenantB # [exTenantA]"
    by (simp add: exSysT_def exTenantStore_def)
  have p: "syncTenants exShop [] [0, 3, 3, 3, 3, 4, 4, 4, 5, 5, 5] exSysT
             = Some ([], [0, 3, 3, 3, 3, 4, 4, 4, 5, 5, 5], exSysT)"
    by simp
  from tenant_failure_isolated[OF t p exSysT_first r]
  show ?thesis by (auto simp: exTenantB_def)
qed


end
